theory Spec2Isabelle
  imports Main
begin

section \<open>Python values and their rendering\<close>

text \<open>
  The bot handles values decoded from JSON: \<open>None\<close>, booleans, integers, floats,
  strings, lists and dictionaries with string keys. A string is its UTF-8 byte
  sequence. A float is never computed with; it is carried as its \<open>repr\<close> text.
  A dictionary is an association list in insertion order with distinct keys.
\<close>

datatype pyval =
    PNone
  | PBool bool
  | PInt int
  | PFloat string
  | PStr string
  | PList "pyval list"
  | PDict "(string \<times> pyval) list"

fun type_name :: "pyval \<Rightarrow> string" where
  "type_name PNone = ''NoneType''"
| "type_name (PBool b) = ''bool''"
| "type_name (PInt i) = ''int''"
| "type_name (PFloat f) = ''float''"
| "type_name (PStr s) = ''str''"
| "type_name (PList xs) = ''list''"
| "type_name (PDict kvs) = ''dict''"

text \<open>A decimal or hexadecimal digit; the callers pass \<open>d < 16\<close> only.\<close>

definition digit_char :: "nat \<Rightarrow> char" where
  "digit_char d = ''0123456789abcdef'' ! d"

function str_nat :: "nat \<Rightarrow> string" where
  "str_nat n = (if n < 10 then [digit_char n] else str_nat (n div 10) @ [digit_char (n mod 10)])"
  by pat_completeness auto
termination
  by (relation "measure id") auto

declare str_nat.simps [simp del]

definition str_int :: "int \<Rightarrow> string" where
  "str_int i = (if i < 0 then CHR ''-'' # str_nat (nat (- i)) else str_nat (nat i))"

text \<open>
  \<open>repr\<close> of a string: double quotes when the text has a single quote and no double
  quote, single quotes otherwise; the backslash, the chosen quote and control characters
  are escaped. Bytes from 0x80 on (the UTF-8 of non-ASCII characters) are kept, which is
  what CPython does for printable characters. CPython escapes the non-ASCII characters
  that are not printable (U+00A0, U+200B and the like); texts with such characters are
  outside this rendering.
\<close>

definition repr_char :: "char \<Rightarrow> char \<Rightarrow> string" where
  "repr_char q c =
     (if c = CHR 0x5C then [CHR 0x5C, CHR 0x5C]
      else if c = q then [CHR 0x5C, q]
      else if c = CHR 0x0A then [CHR 0x5C, CHR ''n'']
      else if c = CHR 0x0D then [CHR 0x5C, CHR ''r'']
      else if c = CHR 0x09 then [CHR 0x5C, CHR ''t'']
      else if (of_char c :: nat) < 32 \<or> (of_char c :: nat) = 127
        then [CHR 0x5C, CHR ''x'', digit_char (of_char c div 16), digit_char (of_char c mod 16)]
      else [c])"

definition repr_str :: "string \<Rightarrow> string" where
  "repr_str s =
     (let q = (if CHR 0x27 \<in> set s \<and> CHR 0x22 \<notin> set s then CHR 0x22 else CHR 0x27)
      in q # concat (map (repr_char q) s) @ [q])"

fun join :: "string \<Rightarrow> string list \<Rightarrow> string" where
  "join sep [] = []"
| "join sep [x] = x"
| "join sep (x # y # ys) = x @ sep @ join sep (y # ys)"

fun py_repr :: "pyval \<Rightarrow> string" where
  "py_repr PNone = ''None''"
| "py_repr (PBool b) = (if b then ''True'' else ''False'')"
| "py_repr (PInt i) = str_int i"
| "py_repr (PFloat f) = f"
| "py_repr (PStr s) = repr_str s"
| "py_repr (PList xs) = ''['' @ join '', '' (map py_repr xs) @ '']''"
| "py_repr (PDict kvs) =
     ''{'' @ join '', '' (map (\<lambda>(k, v). repr_str k @ '': '' @ py_repr v) kvs) @ ''}''"

fun py_str :: "pyval \<Rightarrow> string" where
  "py_str (PStr s) = s"
| "py_str v = py_repr v"

section \<open>Exceptions\<close>

text \<open>
  An exception is its class and its single argument. \<open>SystemExit\<close> (raised by
  \<open>exit()\<close>) and \<open>KeyboardInterrupt\<close> derive from \<open>BaseException\<close> only, so
  \<open>except Exception\<close> lets them pass; the other classes derive from \<open>Exception\<close>.
  \<open>TelegramError\<close> stands for a failure of delivery raised by the messaging library.
  \<open>str\<close> of an exception is \<open>str\<close> of the argument, except for \<open>KeyError\<close>,
  which shows its \<open>repr\<close>.
\<close>

datatype exc_class =
    EnvironmentVariableDoesNotExist
  | EndpointDisable
  | TelegramError
  | TypeError
  | KeyError
  | AttributeError
  | SystemExit
  | KeyboardInterrupt

datatype pyexc = PyExc exc_class pyval

fun is_Exception :: "pyexc \<Rightarrow> bool" where
  "is_Exception (PyExc c a) = (c \<noteq> SystemExit \<and> c \<noteq> KeyboardInterrupt)"

fun str_exc :: "pyexc \<Rightarrow> string" where
  "str_exc (PyExc c a) = (if c = KeyError then py_repr a else py_str a)"

section \<open>Texts of the program\<close>

text \<open>
  The string literals of \<open>homework.py\<close>, byte for byte (UTF-8). The pieces of an
  f-string are separate constants, named for the place they are used.
\<close>

definition HOMEWORK_VERDICT_approved :: string where
  "HOMEWORK_VERDICT_approved =
     [CHR 0xD0, CHR 0xA0, CHR 0xD0, CHR 0xB0, CHR 0xD0,
     CHR 0xB1, CHR 0xD0, CHR 0xBE, CHR 0xD1, CHR 0x82, CHR 0xD0, CHR 0xB0, CHR 0x20,
     CHR 0xD0, CHR 0xBF, CHR 0xD1, CHR 0x80, CHR 0xD0, CHR 0xBE, CHR 0xD0, CHR 0xB2,
     CHR 0xD0, CHR 0xB5, CHR 0xD1, CHR 0x80, CHR 0xD0, CHR 0xB5, CHR 0xD0, CHR 0xBD,
     CHR 0xD0, CHR 0xB0, CHR 0x3A, CHR 0x20, CHR 0xD1, CHR 0x80, CHR 0xD0, CHR 0xB5,
     CHR 0xD0, CHR 0xB2, CHR 0xD1, CHR 0x8C, CHR 0xD1, CHR 0x8E, CHR 0xD0, CHR 0xB5,
     CHR 0xD1, CHR 0x80, CHR 0xD1, CHR 0x83, CHR 0x20, CHR 0xD0, CHR 0xB2, CHR 0xD1,
     CHR 0x81, CHR 0xD1, CHR 0x91, CHR 0x20, CHR 0xD0, CHR 0xBF, CHR 0xD0, CHR 0xBE,
     CHR 0xD0, CHR 0xBD, CHR 0xD1, CHR 0x80, CHR 0xD0, CHR 0xB0, CHR 0xD0, CHR 0xB2,
     CHR 0xD0, CHR 0xB8, CHR 0xD0, CHR 0xBB, CHR 0xD0, CHR 0xBE, CHR 0xD1, CHR 0x81,
     CHR 0xD1, CHR 0x8C, CHR 0x2E, CHR 0x20, CHR 0xD0, CHR 0xA3, CHR 0xD1, CHR 0x80,
     CHR 0xD0, CHR 0xB0, CHR 0x21]"

definition HOMEWORK_VERDICT_reviewing :: string where
  "HOMEWORK_VERDICT_reviewing =
     [CHR 0xD0, CHR 0xA0, CHR 0xD0, CHR 0xB0, CHR 0xD0,
     CHR 0xB1, CHR 0xD0, CHR 0xBE, CHR 0xD1, CHR 0x82, CHR 0xD0, CHR 0xB0, CHR 0x20,
     CHR 0xD0, CHR 0xB2, CHR 0xD0, CHR 0xB7, CHR 0xD1, CHR 0x8F, CHR 0xD1, CHR 0x82,
     CHR 0xD0, CHR 0xB0, CHR 0x20, CHR 0xD0, CHR 0xBD, CHR 0xD0, CHR 0xB0, CHR 0x20,
     CHR 0xD0, CHR 0xBF, CHR 0xD1, CHR 0x80, CHR 0xD0, CHR 0xBE, CHR 0xD0, CHR 0xB2,
     CHR 0xD0, CHR 0xB5, CHR 0xD1, CHR 0x80, CHR 0xD0, CHR 0xBA, CHR 0xD1, CHR 0x83,
     CHR 0x20, CHR 0xD1, CHR 0x80, CHR 0xD0, CHR 0xB5, CHR 0xD0, CHR 0xB2, CHR 0xD1,
     CHR 0x8C, CHR 0xD1, CHR 0x8E, CHR 0xD0, CHR 0xB5, CHR 0xD1, CHR 0x80, CHR 0xD0,
     CHR 0xBE, CHR 0xD0, CHR 0xBC, CHR 0x2E]"

definition HOMEWORK_VERDICT_rejected :: string where
  "HOMEWORK_VERDICT_rejected =
     [CHR 0xD0, CHR 0xA0, CHR 0xD0, CHR 0xB0, CHR 0xD0,
     CHR 0xB1, CHR 0xD0, CHR 0xBE, CHR 0xD1, CHR 0x82, CHR 0xD0, CHR 0xB0, CHR 0x20,
     CHR 0xD0, CHR 0xBF, CHR 0xD1, CHR 0x80, CHR 0xD0, CHR 0xBE, CHR 0xD0, CHR 0xB2,
     CHR 0xD0, CHR 0xB5, CHR 0xD1, CHR 0x80, CHR 0xD0, CHR 0xB5, CHR 0xD0, CHR 0xBD,
     CHR 0xD0, CHR 0xB0, CHR 0x3A, CHR 0x20, CHR 0xD1, CHR 0x83, CHR 0x20, CHR 0xD1,
     CHR 0x80, CHR 0xD0, CHR 0xB5, CHR 0xD0, CHR 0xB2, CHR 0xD1, CHR 0x8C, CHR 0xD1,
     CHR 0x8E, CHR 0xD0, CHR 0xB5, CHR 0xD1, CHR 0x80, CHR 0xD0, CHR 0xB0, CHR 0x20,
     CHR 0xD0, CHR 0xB5, CHR 0xD1, CHR 0x81, CHR 0xD1, CHR 0x82, CHR 0xD1, CHR 0x8C,
     CHR 0x20, CHR 0xD0, CHR 0xB7, CHR 0xD0, CHR 0xB0, CHR 0xD0, CHR 0xBC, CHR 0xD0,
     CHR 0xB5, CHR 0xD1, CHR 0x87, CHR 0xD0, CHR 0xB0, CHR 0xD0, CHR 0xBD, CHR 0xD0,
     CHR 0xB8, CHR 0xD1, CHR 0x8F, CHR 0x2E]"

definition txt_env_missing_pre :: string where
  "txt_env_missing_pre =
     [CHR 0xD0, CHR 0x9E, CHR 0xD1, CHR 0x82, CHR 0xD1,
     CHR 0x81, CHR 0xD1, CHR 0x83, CHR 0xD1, CHR 0x82, CHR 0xD1, CHR 0x81, CHR 0xD1,
     CHR 0x82, CHR 0xD0, CHR 0xB2, CHR 0xD1, CHR 0x83, CHR 0xD0, CHR 0xB5, CHR 0xD1,
     CHR 0x82, CHR 0x20, CHR 0xD0, CHR 0xBE, CHR 0xD0, CHR 0xB1, CHR 0xD1, CHR 0x8F,
     CHR 0xD0, CHR 0xB7, CHR 0xD0, CHR 0xB0, CHR 0xD1, CHR 0x82, CHR 0xD0, CHR 0xB5,
     CHR 0xD0, CHR 0xBB, CHR 0xD1, CHR 0x8C, CHR 0xD0, CHR 0xBD, CHR 0xD0, CHR 0xB0,
     CHR 0xD1, CHR 0x8F, CHR 0x20, CHR 0xD0, CHR 0xBF, CHR 0xD0, CHR 0xB5, CHR 0xD1,
     CHR 0x80, CHR 0xD0, CHR 0xB5, CHR 0xD0, CHR 0xBC, CHR 0xD0, CHR 0xB5, CHR 0xD0,
     CHR 0xBD, CHR 0xD0, CHR 0xBD, CHR 0xD0, CHR 0xB0, CHR 0xD1, CHR 0x8F, CHR 0x20,
     CHR 0xD0, CHR 0xBE, CHR 0xD0, CHR 0xBA, CHR 0xD1, CHR 0x80, CHR 0xD1, CHR 0x83,
     CHR 0xD0, CHR 0xB6, CHR 0xD0, CHR 0xB5, CHR 0xD0, CHR 0xBD, CHR 0xD0, CHR 0xB8,
     CHR 0xD1, CHR 0x8F, CHR 0x3A, CHR 0x20, CHR 0x27]"

definition txt_env_missing_post :: string where
  "txt_env_missing_post =
     [CHR 0x27, CHR 0x2E]"

definition txt_halted :: string where
  "txt_halted =
     [CHR 0x20, CHR 0xD0, CHR 0x9F, CHR 0xD1, CHR 0x80, CHR 0xD0,
     CHR 0xBE, CHR 0xD0, CHR 0xB3, CHR 0xD1, CHR 0x80, CHR 0xD0, CHR 0xB0, CHR 0xD0,
     CHR 0xBC, CHR 0xD0, CHR 0xBC, CHR 0xD0, CHR 0xB0, CHR 0x20, CHR 0xD0, CHR 0xBF,
     CHR 0xD1, CHR 0x80, CHR 0xD0, CHR 0xB8, CHR 0xD0, CHR 0xBD, CHR 0xD1, CHR 0x83,
     CHR 0xD0, CHR 0xB4, CHR 0xD0, CHR 0xB8, CHR 0xD1, CHR 0x82, CHR 0xD0, CHR 0xB5,
     CHR 0xD0, CHR 0xBB, CHR 0xD1, CHR 0x8C, CHR 0xD0, CHR 0xBD, CHR 0xD0, CHR 0xBE,
     CHR 0x20, CHR 0xD0, CHR 0xBE, CHR 0xD1, CHR 0x81, CHR 0xD1, CHR 0x82, CHR 0xD0,
     CHR 0xB0, CHR 0xD0, CHR 0xBD, CHR 0xD0, CHR 0xBE, CHR 0xD0, CHR 0xB2, CHR 0xD0,
     CHR 0xBB, CHR 0xD0, CHR 0xB5, CHR 0xD0, CHR 0xBD, CHR 0xD0, CHR 0xB0, CHR 0x2E]"

definition txt_sent_pre :: string where
  "txt_sent_pre =
     [CHR 0xD0, CHR 0xA1, CHR 0xD0, CHR 0xBE, CHR 0xD0, CHR 0xBE,
     CHR 0xD0, CHR 0xB1, CHR 0xD1, CHR 0x89, CHR 0xD0, CHR 0xB5, CHR 0xD0, CHR 0xBD,
     CHR 0xD0, CHR 0xB8, CHR 0xD0, CHR 0xB5, CHR 0x20, CHR 0xD0, CHR 0xBE, CHR 0xD1,
     CHR 0x82, CHR 0xD0, CHR 0xBF, CHR 0xD1, CHR 0x80, CHR 0xD0, CHR 0xB0, CHR 0xD0,
     CHR 0xB2, CHR 0xD0, CHR 0xBB, CHR 0xD0, CHR 0xB5, CHR 0xD0, CHR 0xBD, CHR 0xD0,
     CHR 0xBE, CHR 0x20, CHR 0xD0, CHR 0xB2] @ '' Telegram: '' @ [CHR 0x27]"

definition txt_sent_post :: string where
  "txt_sent_post =
     [CHR 0x27, CHR 0x20]"

definition txt_send_failed_pre :: string where
  "txt_send_failed_pre =
     [CHR 0x43, CHR 0xD0, CHR 0xB1, CHR 0xD0, CHR 0xBE,
     CHR 0xD0, CHR 0xB9, CHR 0x20, CHR 0xD0, CHR 0xBF, CHR 0xD1, CHR 0x80, CHR 0xD0,
     CHR 0xB8, CHR 0x20, CHR 0xD0, CHR 0xBE, CHR 0xD1, CHR 0x82, CHR 0xD0, CHR 0xBF,
     CHR 0xD1, CHR 0x80, CHR 0xD0, CHR 0xB0, CHR 0xD0, CHR 0xB2, CHR 0xD0, CHR 0xBA,
     CHR 0xD0, CHR 0xB5, CHR 0x20, CHR 0xD1, CHR 0x81, CHR 0xD0, CHR 0xBE, CHR 0xD0,
     CHR 0xBE, CHR 0xD0, CHR 0xB1, CHR 0xD1, CHR 0x89, CHR 0xD0, CHR 0xB5, CHR 0xD0,
     CHR 0xBD, CHR 0xD0, CHR 0xB8, CHR 0xD1, CHR 0x8F, CHR 0x20, CHR 0xD0, CHR 0xB2] @
     '' Telegram: '' @ [CHR 0x27]"

definition txt_send_failed_post :: string where
  "txt_send_failed_post =
     [CHR 0x27]"

definition txt_request_failed_pre :: string where
  "txt_request_failed_pre =
     [CHR 0xD0, CHR 0x9D, CHR 0xD0, CHR 0xB5, CHR 0xD1,
     CHR 0x83, CHR 0xD1, CHR 0x81, CHR 0xD0, CHR 0xBF, CHR 0xD0, CHR 0xB5, CHR 0xD1,
     CHR 0x88, CHR 0xD0, CHR 0xBD, CHR 0xD1, CHR 0x8B, CHR 0xD0, CHR 0xB9, CHR 0x20,
     CHR 0xD0, CHR 0xB7, CHR 0xD0, CHR 0xB0, CHR 0xD0, CHR 0xBF, CHR 0xD1, CHR 0x80,
     CHR 0xD0, CHR 0xBE, CHR 0xD1, CHR 0x81, CHR 0x3A, CHR 0x20, CHR 0x27]"

definition txt_request_failed_post :: string where
  "txt_request_failed_post =
     [CHR 0x27, CHR 0x2E]"

definition txt_endpoint_status :: string where
  "txt_endpoint_status =
     ''Endpoint '' @ [CHR 0xD0, CHR 0xBD, CHR 0xD0, CHR 0xB5,
     CHR 0x20, CHR 0xD0, CHR 0xB4, CHR 0xD0, CHR 0xBE, CHR 0xD1, CHR 0x81, CHR 0xD1,
     CHR 0x82, CHR 0xD1, CHR 0x83, CHR 0xD0, CHR 0xBF, CHR 0xD0, CHR 0xB5, CHR 0xD0,
     CHR 0xBD] @ '', HTTPStatus: ''"

definition txt_json_error :: string where
  "txt_json_error =
     [CHR 0xD0, CHR 0x9E, CHR 0xD1, CHR 0x88, CHR 0xD0, CHR 0xB8,
     CHR 0xD0, CHR 0xB1, CHR 0xD0, CHR 0xBA, CHR 0xD0, CHR 0xB0, CHR 0x20, CHR 0xD0,
     CHR 0xBF, CHR 0xD1, CHR 0x80, CHR 0xD0, CHR 0xB5, CHR 0xD0, CHR 0xBE, CHR 0xD0,
     CHR 0xB1, CHR 0xD1, CHR 0x80, CHR 0xD0, CHR 0xB0, CHR 0xD0, CHR 0xB7, CHR 0xD0,
     CHR 0xBE, CHR 0xD0, CHR 0xB2, CHR 0xD0, CHR 0xB0, CHR 0xD0, CHR 0xBD, CHR 0xD0,
     CHR 0xB8, CHR 0xD1, CHR 0x8F, CHR 0x20, CHR 0xD0, CHR 0xB2] @ '' JSON: ''"

definition txt_not_dict :: string where
  "txt_not_dict =
     [CHR 0xD0, CHR 0x9E, CHR 0xD1, CHR 0x82, CHR 0xD0, CHR 0xB2,
     CHR 0xD0, CHR 0xB5, CHR 0xD1, CHR 0x82] @ '' API '' @ [CHR 0xD0, CHR 0xBD,
     CHR 0xD0, CHR 0xB5, CHR 0x20, CHR 0xD1, CHR 0x81, CHR 0xD0, CHR 0xBE, CHR 0xD0,
     CHR 0xBE, CHR 0xD1, CHR 0x82, CHR 0xD0, CHR 0xB2, CHR 0xD0, CHR 0xB5, CHR 0xD1,
     CHR 0x82, CHR 0xD1, CHR 0x81, CHR 0xD1, CHR 0x82, CHR 0xD0, CHR 0xB2, CHR 0xD1,
     CHR 0x83, CHR 0xD0, CHR 0xB5, CHR 0xD1, CHR 0x82, CHR 0x20, CHR 0xD1, CHR 0x82,
     CHR 0xD0, CHR 0xB8, CHR 0xD0, CHR 0xBF, CHR 0xD1, CHR 0x83, CHR 0x20, CHR 0x27] @
     ''dict'' @ [CHR 0x27, CHR 0x2E]"

definition txt_no_homeworks :: string where
  "txt_no_homeworks =
     [CHR 0xD0, CHR 0x9E, CHR 0xD1, CHR 0x82, CHR 0xD0, CHR 0xB2,
     CHR 0xD0, CHR 0xB5, CHR 0xD1, CHR 0x82] @ '' API '' @ [CHR 0xD0, CHR 0xBD,
     CHR 0xD0, CHR 0xB5, CHR 0x20, CHR 0xD1, CHR 0x81, CHR 0xD0, CHR 0xBE, CHR 0xD0,
     CHR 0xB4, CHR 0xD0, CHR 0xB5, CHR 0xD1, CHR 0x80, CHR 0xD0, CHR 0xB6, CHR 0xD0,
     CHR 0xB8, CHR 0xD1, CHR 0x82, CHR 0x20, CHR 0xD0, CHR 0xBA, CHR 0xD0, CHR 0xBB,
     CHR 0xD1, CHR 0x8E, CHR 0xD1, CHR 0x87, CHR 0xD0, CHR 0xB0, CHR 0x20, CHR 0x27] @
     ''homeworks'' @ [CHR 0x27]"

definition txt_no_current_date :: string where
  "txt_no_current_date =
     [CHR 0xD0, CHR 0x9E, CHR 0xD1, CHR 0x82, CHR 0xD0,
     CHR 0xB2, CHR 0xD0, CHR 0xB5, CHR 0xD1, CHR 0x82] @ '' API '' @ [CHR 0xD0,
     CHR 0xBD, CHR 0xD0, CHR 0xB5, CHR 0x20, CHR 0xD1, CHR 0x81, CHR 0xD0, CHR 0xBE,
     CHR 0xD0, CHR 0xB4, CHR 0xD0, CHR 0xB5, CHR 0xD1, CHR 0x80, CHR 0xD0, CHR 0xB6,
     CHR 0xD0, CHR 0xB8, CHR 0xD1, CHR 0x82, CHR 0x20, CHR 0xD0, CHR 0xBA, CHR 0xD0,
     CHR 0xBB, CHR 0xD1, CHR 0x8E, CHR 0xD1, CHR 0x87, CHR 0xD0, CHR 0xB0, CHR 0x20,
     CHR 0x27] @ ''current_date'' @ [CHR 0x27]"

definition txt_homeworks_not_list :: string where
  "txt_homeworks_not_list =
     [CHR 0xD0, CHR 0x94, CHR 0xD0, CHR 0xB0, CHR 0xD0,
     CHR 0xBD, CHR 0xD0, CHR 0xBD, CHR 0xD1, CHR 0x8B, CHR 0xD0, CHR 0xB5, CHR 0x20,
     CHR 0xD0, CHR 0xBA, CHR 0xD0, CHR 0xBB, CHR 0xD1, CHR 0x8E, CHR 0xD1, CHR 0x87,
     CHR 0xD0, CHR 0xB0, CHR 0x20, CHR 0x27] @ ''homeworks'' @ [CHR 0x27, CHR 0x20,
     CHR 0xD0, CHR 0xBD, CHR 0xD0, CHR 0xB5, CHR 0x20, CHR 0xD1, CHR 0x81, CHR 0xD0,
     CHR 0xBE, CHR 0xD0, CHR 0xBE, CHR 0xD1, CHR 0x82, CHR 0xD0, CHR 0xB2, CHR 0xD0,
     CHR 0xB5, CHR 0xD1, CHR 0x82, CHR 0xD1, CHR 0x81, CHR 0xD1, CHR 0x82, CHR 0xD0,
     CHR 0xB2, CHR 0xD1, CHR 0x83, CHR 0xD0, CHR 0xB5, CHR 0xD1, CHR 0x82, CHR 0x20,
     CHR 0xD1, CHR 0x82, CHR 0xD0, CHR 0xB8, CHR 0xD0, CHR 0xBF, CHR 0xD1, CHR 0x83,
     CHR 0x20, CHR 0x27] @ ''list'' @ [CHR 0x27, CHR 0x2E]"

definition txt_no_homework_name :: string where
  "txt_no_homework_name =
     [CHR 0xD0, CHR 0x9A, CHR 0xD0, CHR 0xBB, CHR 0xD1,
     CHR 0x8E, CHR 0xD1, CHR 0x87, CHR 0x20, CHR 0x27] @ ''homework_name'' @ [CHR 0x27,
     CHR 0x20, CHR 0xD0, CHR 0xBE, CHR 0xD1, CHR 0x82, CHR 0xD1, CHR 0x81, CHR 0xD1,
     CHR 0x83, CHR 0xD1, CHR 0x82, CHR 0xD1, CHR 0x81, CHR 0xD1, CHR 0x82, CHR 0xD0,
     CHR 0xB2, CHR 0xD1, CHR 0x83, CHR 0xD0, CHR 0xB5, CHR 0xD1, CHR 0x82, CHR 0x20,
     CHR 0xD0, CHR 0xB2, CHR 0x20, CHR 0x27] @ ''homework'' @ [CHR 0x27]"

definition txt_unknown_status_pre :: string where
  "txt_unknown_status_pre =
     [CHR 0xD0, CHR 0x9D, CHR 0xD0, CHR 0xB5, CHR 0xD0,
     CHR 0xB8, CHR 0xD0, CHR 0xB7, CHR 0xD0, CHR 0xB2, CHR 0xD0, CHR 0xB5, CHR 0xD1,
     CHR 0x81, CHR 0xD1, CHR 0x82, CHR 0xD0, CHR 0xBD, CHR 0xD1, CHR 0x8B, CHR 0xD0,
     CHR 0xB9, CHR 0x20, CHR 0xD1, CHR 0x81, CHR 0xD1, CHR 0x82, CHR 0xD0, CHR 0xB0,
     CHR 0xD1, CHR 0x82, CHR 0xD1, CHR 0x83, CHR 0xD1, CHR 0x81, CHR 0x3A, CHR 0x20,
     CHR 0x27]"

definition txt_unknown_status_post :: string where
  "txt_unknown_status_post =
     [CHR 0x27]"

definition txt_status_changed :: string where
  "txt_status_changed =
     [CHR 0xD0, CHR 0x98, CHR 0xD0, CHR 0xB7, CHR 0xD0,
     CHR 0xBC, CHR 0xD0, CHR 0xB5, CHR 0xD0, CHR 0xBD, CHR 0xD0, CHR 0xB8, CHR 0xD0,
     CHR 0xBB, CHR 0xD1, CHR 0x81, CHR 0xD1, CHR 0x8F, CHR 0x20, CHR 0xD1, CHR 0x81,
     CHR 0xD1, CHR 0x82, CHR 0xD0, CHR 0xB0, CHR 0xD1, CHR 0x82, CHR 0xD1, CHR 0x83,
     CHR 0xD1, CHR 0x81, CHR 0x20, CHR 0xD0, CHR 0xBF, CHR 0xD1, CHR 0x80, CHR 0xD0,
     CHR 0xBE, CHR 0xD0, CHR 0xB2, CHR 0xD0, CHR 0xB5, CHR 0xD1, CHR 0x80, CHR 0xD0,
     CHR 0xBA, CHR 0xD0, CHR 0xB8, CHR 0x20, CHR 0xD1, CHR 0x80, CHR 0xD0, CHR 0xB0,
     CHR 0xD0, CHR 0xB1, CHR 0xD0, CHR 0xBE, CHR 0xD1, CHR 0x82, CHR 0xD1, CHR 0x8B,
     CHR 0x20, CHR 0x22]"

definition txt_sprint :: string where
  "txt_sprint =
     [CHR 0x22, CHR 0x2E, CHR 0x0A, CHR 0xD0, CHR 0xA1, CHR 0xD0,
     CHR 0xBF, CHR 0xD1, CHR 0x80, CHR 0xD0, CHR 0xB8, CHR 0xD0, CHR 0xBD, CHR 0xD1,
     CHR 0x82, CHR 0x20, CHR 0x22]"

definition txt_end_sprint :: string where
  "txt_end_sprint =
     [CHR 0x22, CHR 0x2E, CHR 0x0A]"

definition txt_checking_pre :: string where
  "txt_checking_pre =
     [CHR 0xD0, CHR 0x9F, CHR 0xD1, CHR 0x80, CHR 0xD0, CHR 0xBE,
     CHR 0xD0, CHR 0xB2, CHR 0xD0, CHR 0xB5, CHR 0xD1, CHR 0x80, CHR 0xD1, CHR 0x8F,
     CHR 0xD1, CHR 0x8E, CHR 0x20, CHR 0xD1, CHR 0x81, CHR 0xD1, CHR 0x82, CHR 0xD0,
     CHR 0xB0, CHR 0xD1, CHR 0x82, CHR 0xD1, CHR 0x83, CHR 0xD1, CHR 0x81, CHR 0x20,
     CHR 0xD0, CHR 0xB4, CHR 0xD0, CHR 0xBE, CHR 0xD0, CHR 0xBC, CHR 0xD0, CHR 0xB0,
     CHR 0xD1, CHR 0x88, CHR 0xD0, CHR 0xBD, CHR 0xD0, CHR 0xB5, CHR 0xD0, CHR 0xB9,
     CHR 0x20, CHR 0xD1, CHR 0x80, CHR 0xD0, CHR 0xB0, CHR 0xD0, CHR 0xB1, CHR 0xD0,
     CHR 0xBE, CHR 0xD1, CHR 0x82, CHR 0xD1, CHR 0x8B, CHR 0x20, CHR 0xD0, CHR 0xBA,
     CHR 0xD0, CHR 0xB0, CHR 0xD0, CHR 0xB6, CHR 0xD0, CHR 0xB4, CHR 0xD1, CHR 0x8B,
     CHR 0xD0, CHR 0xB5, CHR 0x20]"

definition txt_checking_post :: string where
  "txt_checking_post =
     [CHR 0x20, CHR 0xD1, CHR 0x81, CHR 0xD0, CHR 0xB5, CHR 0xD0,
     CHR 0xBA, CHR 0xD1, CHR 0x83, CHR 0xD0, CHR 0xBD, CHR 0xD0, CHR 0xB4]"

definition txt_no_changes :: string where
  "txt_no_changes =
     [CHR 0xD0, CHR 0x94, CHR 0xD0, CHR 0xBE, CHR 0xD0, CHR 0xBC,
     CHR 0xD0, CHR 0xB0, CHR 0xD1, CHR 0x88, CHR 0xD0, CHR 0xBD, CHR 0xD1, CHR 0x8F,
     CHR 0xD1, CHR 0x8F, CHR 0x20, CHR 0xD1, CHR 0x80, CHR 0xD0, CHR 0xB0, CHR 0xD0,
     CHR 0xB1, CHR 0xD0, CHR 0xBE, CHR 0xD1, CHR 0x82, CHR 0xD0, CHR 0xB0, CHR 0x20,
     CHR 0xD0, CHR 0xBE, CHR 0xD1, CHR 0x82, CHR 0xD1, CHR 0x81, CHR 0xD1, CHR 0x83,
     CHR 0xD1, CHR 0x82, CHR 0xD1, CHR 0x81, CHR 0xD1, CHR 0x82, CHR 0xD0, CHR 0xB2,
     CHR 0xD1, CHR 0x83, CHR 0xD0, CHR 0xB5, CHR 0xD1, CHR 0x82, CHR 0x20, CHR 0xD0,
     CHR 0xB8, CHR 0xD0, CHR 0xBB, CHR 0xD0, CHR 0xB8, CHR 0x20, CHR 0xD0, CHR 0xB5,
     CHR 0xD0, CHR 0xB5, CHR 0x20, CHR 0xD1, CHR 0x81, CHR 0xD1, CHR 0x82, CHR 0xD0,
     CHR 0xB0, CHR 0xD1, CHR 0x82, CHR 0xD1, CHR 0x83, CHR 0xD1, CHR 0x81, CHR 0x20,
     CHR 0xD0, CHR 0xBD, CHR 0xD0, CHR 0xB5, CHR 0x20, CHR 0xD0, CHR 0xB8, CHR 0xD0,
     CHR 0xB7, CHR 0xD0, CHR 0xBC, CHR 0xD0, CHR 0xB5, CHR 0xD0, CHR 0xBD, CHR 0xD0,
     CHR 0xB8, CHR 0xD0, CHR 0xBB, CHR 0xD1, CHR 0x81, CHR 0xD1, CHR 0x8F, CHR 0x2E]"

definition txt_failure :: string where
  "txt_failure =
     [CHR 0xD0, CHR 0xA1, CHR 0xD0, CHR 0xB1, CHR 0xD0, CHR 0xBE,
     CHR 0xD0, CHR 0xB9, CHR 0x20, CHR 0xD0, CHR 0xB2, CHR 0x20, CHR 0xD1, CHR 0x80,
     CHR 0xD0, CHR 0xB0, CHR 0xD0, CHR 0xB1, CHR 0xD0, CHR 0xBE, CHR 0xD1, CHR 0x82,
     CHR 0xD0, CHR 0xB5, CHR 0x20, CHR 0xD0, CHR 0xBF, CHR 0xD1, CHR 0x80, CHR 0xD0,
     CHR 0xBE, CHR 0xD0, CHR 0xB3, CHR 0xD1, CHR 0x80, CHR 0xD0, CHR 0xB0, CHR 0xD0,
     CHR 0xBC, CHR 0xD0, CHR 0xBC, CHR 0xD1, CHR 0x8B, CHR 0x3A, CHR 0x20]"

section \<open>Operations of the Python runtime used by the program\<close>

text \<open>
  The operations are total here: where Python raises, the result is \<open>Inl\<close> of the
  exception. The texts of the runtime's own exceptions are those of CPython 3.11 to 3.13.
\<close>

definition quoted :: "string \<Rightarrow> string" where
  "quoted s = CHR 0x27 # s @ [CHR 0x27]"

text \<open>\<open>v[k]\<close> for a string key \<open>k\<close> (\<open>response["current_date"]\<close>, \<open>homework['status']\<close>).\<close>

fun py_getitem :: "pyval \<Rightarrow> string \<Rightarrow> pyexc + pyval" where
  "py_getitem (PDict kvs) k =
     (case map_of kvs k of
        None \<Rightarrow> Inl (PyExc KeyError (PStr k))
      | Some v \<Rightarrow> Inr v)"
| "py_getitem (PList xs) k =
     Inl (PyExc TypeError (PStr ''list indices must be integers or slices, not str''))"
| "py_getitem (PStr s) k =
     Inl (PyExc TypeError (PStr (''string indices must be integers, not '' @ quoted ''str'')))"
| "py_getitem v k =
     Inl (PyExc TypeError (PStr (quoted (type_name v) @ '' object is not subscriptable'')))"

text \<open>\<open>v.get(k)\<close>: only a dictionary has the method.\<close>

fun py_get :: "pyval \<Rightarrow> string \<Rightarrow> pyexc + pyval" where
  "py_get (PDict kvs) k = Inr (case map_of kvs k of None \<Rightarrow> PNone | Some v \<Rightarrow> v)"
| "py_get v k =
     Inl (PyExc AttributeError
       (PStr (quoted (type_name v) @ '' object has no attribute '' @ quoted ''get'')))"

fun contains_sub :: "string \<Rightarrow> string \<Rightarrow> bool" where
  "contains_sub needle [] = (needle = [])"
| "contains_sub needle (c # cs) =
     (take (length needle) (c # cs) = needle \<or> contains_sub needle cs)"

text \<open>
  \<open>k in v\<close> for a string \<open>k\<close>: a key of a dictionary, an element of a list, a
  substring of a string; the other values are not iterable.
\<close>

fun py_contains :: "pyval \<Rightarrow> string \<Rightarrow> pyexc + bool" where
  "py_contains (PDict kvs) k = Inr (map_of kvs k \<noteq> None)"
| "py_contains (PList xs) k = Inr (PStr k \<in> set xs)"
| "py_contains (PStr s) k = Inr (contains_sub k s)"
| "py_contains v k =
     Inl (PyExc TypeError
       (PStr (''argument of type '' @ quoted (type_name v) @ '' is not iterable'')))"

definition bind_exc :: "pyexc + 'a \<Rightarrow> ('a \<Rightarrow> pyexc + 'b) \<Rightarrow> pyexc + 'b" where
  "bind_exc r f = (case r of Inl e \<Rightarrow> Inl e | Inr v \<Rightarrow> f v)"

section \<open>The world outside the program\<close>

text \<open>
  What the program does to the outside is a list of events, in order: a log record, a
  request to the status API (with the \<open>from_date\<close> it carries), a call of the
  messaging API (chat identifier and text) and a sleep.
\<close>

datatype level = DEBUG | INFO | ERROR | CRITICAL

datatype event =
    Log level string
  | ApiRequest pyval
  | BotSend string string
  | Sleep int

text \<open>
  The outcome of \<open>requests.get\<close>: a \<open>requests.RequestException\<close> (its text), or a
  response with its status code, its body and what \<open>response.json()\<close> gives: the decoded
  value, or the text of a \<open>requests.JSONDecodeError\<close>.
\<close>

datatype http_outcome =
    RequestException string
  | HttpResponse int string "string + pyval"

text \<open>
  The call \<open>bot.send_message(chat_id, text)\<close>, as \<open>send_message\<close> sees it: it
  returns (\<open>None\<close>) or raises an exception of any class.
\<close>

type_synonym transport = "string \<Rightarrow> string \<Rightarrow> pyexc option"

text \<open>
  One cycle of the loop sees the status API as a function of the \<open>from_date\<close> sent and
  the messaging API as a function of chat identifier and text, which delivers (\<open>None\<close>)
  or fails to deliver, with the text of the failure. A run of the loop is observed while
  the process is not interrupted: a failure of delivery is a \<open>TelegramError\<close>.
\<close>

record world =
  requests_get :: "pyval \<Rightarrow> http_outcome"
  bot_send_message :: "string \<Rightarrow> string \<Rightarrow> string option"

definition transport_of :: "(string \<Rightarrow> string \<Rightarrow> string option) \<Rightarrow> transport" where
  "transport_of deliver chat_id text =
     (case deliver chat_id text of
        None \<Rightarrow> None
      | Some failure \<Rightarrow> Some (PyExc TelegramError (PStr failure)))"

record config =
  PRACTICUM_TOKEN :: string
  TELEGRAM_TOKEN :: string
  TELEGRAM_CHAT_ID :: string

definition RETRY_PERIOD :: int where
  "RETRY_PERIOD = 600"

definition HOMEWORK_VERDICTS :: "(string \<times> string) list" where
  "HOMEWORK_VERDICTS =
     [(''approved'', HOMEWORK_VERDICT_approved),
      (''reviewing'', HOMEWORK_VERDICT_reviewing),
      (''rejected'', HOMEWORK_VERDICT_rejected)]"

section \<open>The functions of homework.py\<close>

subsection \<open>check_tokens\<close>

definition env_vars :: "config \<Rightarrow> (string \<times> string) list" where
  "env_vars cfg =
     [(''PRACTICUM_TOKEN'', PRACTICUM_TOKEN cfg),
      (''TELEGRAM_TOKEN'', TELEGRAM_TOKEN cfg),
      (''TELEGRAM_CHAT_ID'', TELEGRAM_CHAT_ID cfg)]"

text \<open>The \<open>for\<close> loop over the dictionary: the first empty value raises.\<close>

fun check_vars :: "(string \<times> string) list \<Rightarrow> pyexc + unit" where
  "check_vars [] = Inr ()"
| "check_vars ((var, val) # rest) =
     (if val = []
      then Inl (PyExc EnvironmentVariableDoesNotExist
                 (PStr (txt_env_missing_pre @ var @ txt_env_missing_post)))
      else check_vars rest)"

definition check_tokens :: "config \<Rightarrow> pyexc + unit" where
  "check_tokens cfg = check_vars (env_vars cfg)"

subsection \<open>send_message\<close>

text \<open>
  The \<open>try\<close> block calls the transport and logs at debug level; \<open>except Exception\<close>
  logs the failure, and lets an exception that is not an \<open>Exception\<close> pass. The second
  component is the exception that leaves the function.
\<close>

definition send_message :: "transport \<Rightarrow> string \<Rightarrow> string \<Rightarrow> event list \<times> pyexc option" where
  "send_message bot_send chat_id message =
     (case bot_send chat_id message of
        None \<Rightarrow>
          ([BotSend chat_id message,
            Log DEBUG (txt_sent_pre @ message @ txt_sent_post)], None)
      | Some error \<Rightarrow>
          if is_Exception error
          then ([BotSend chat_id message,
                 Log ERROR (txt_send_failed_pre @ str_exc error @ txt_send_failed_post)], None)
          else ([BotSend chat_id message], Some error))"

subsection \<open>get_api_answer\<close>

text \<open>
  \<open>requests.JSONDecodeError(msg)\<close> with the message as its only argument: the
  constructor hands its arguments to \<open>json.JSONDecodeError\<close>, which takes \<open>msg\<close>,
  \<open>doc\<close> and \<open>pos\<close>, so the call raises a \<open>TypeError\<close> and the message is lost
  (requests 2.28 and later; the text is that of CPython 3.10 and later).
\<close>

definition JSONDecodeError_of_message :: "string \<Rightarrow> pyexc" where
  "JSONDecodeError_of_message msg =
     PyExc TypeError
       (PStr (''JSONDecodeError.__init__() missing 2 required positional arguments: ''
              @ quoted ''doc'' @ '' and '' @ quoted ''pos''))"

definition get_api_answer ::
  "(pyval \<Rightarrow> http_outcome) \<Rightarrow> pyval \<Rightarrow> event list \<times> (pyexc + pyval)" where
  "get_api_answer get ts =
     (case get ts of
        RequestException error \<Rightarrow>
          ([ApiRequest ts],
           Inl (PyExc EndpointDisable
                 (PStr (txt_request_failed_pre @ error @ txt_request_failed_post))))
      | HttpResponse status_code body js \<Rightarrow>
          if status_code \<noteq> 200
          then ([ApiRequest ts],
                Inl (PyExc EndpointDisable (PStr (txt_endpoint_status @ str_int status_code))))
          else (case js of
                  Inl error \<Rightarrow>
                    ([ApiRequest ts, Log INFO body],
                     Inl (JSONDecodeError_of_message (txt_json_error @ error)))
                | Inr v \<Rightarrow> ([ApiRequest ts, Log INFO body], Inr v)))"

subsection \<open>check_response\<close>

text \<open>
  The four checks in the order of the source. The value returned is
  \<open>response.get("homeworks")\<close>, which the last check has shown to be a list.
\<close>

definition check_response :: "pyval \<Rightarrow> pyexc + pyval list" where
  "check_response response =
     (case response of
        PDict kvs \<Rightarrow>
          (case map_of kvs ''homeworks'' of
             None \<Rightarrow> Inl (PyExc KeyError (PStr txt_no_homeworks))
           | Some homeworks \<Rightarrow>
               (case map_of kvs ''current_date'' of
                  None \<Rightarrow> Inl (PyExc KeyError (PStr txt_no_current_date))
                | Some current_date \<Rightarrow>
                    (case homeworks of
                       PList hs \<Rightarrow> Inr hs
                     | _ \<Rightarrow> Inl (PyExc TypeError (PStr txt_homeworks_not_list)))))
      | _ \<Rightarrow> Inl (PyExc TypeError (PStr txt_not_dict)))"

subsection \<open>parse_status\<close>

text \<open>
  \<open>x not in HOMEWORK_VERDICTS\<close> hashes \<open>x\<close>: a list or a dictionary raises; only a
  string can equal a key.
\<close>

fun in_verdicts :: "pyval \<Rightarrow> pyexc + bool" where
  "in_verdicts (PStr s) = Inr (map_of HOMEWORK_VERDICTS s \<noteq> None)"
| "in_verdicts (PList xs) = Inl (PyExc TypeError (PStr (''unhashable type: '' @ quoted ''list'')))"
| "in_verdicts (PDict kvs) = Inl (PyExc TypeError (PStr (''unhashable type: '' @ quoted ''dict'')))"
| "in_verdicts v = Inr False"

text \<open>\<open>HOMEWORK_VERDICTS[status]\<close>.\<close>

fun verdict_of :: "pyval \<Rightarrow> pyexc + string" where
  "verdict_of (PStr s) =
     (case map_of HOMEWORK_VERDICTS s of
        None \<Rightarrow> Inl (PyExc KeyError (PStr s))
      | Some verdict \<Rightarrow> Inr verdict)"
| "verdict_of (PList xs) = Inl (PyExc TypeError (PStr (''unhashable type: '' @ quoted ''list'')))"
| "verdict_of (PDict kvs) = Inl (PyExc TypeError (PStr (''unhashable type: '' @ quoted ''dict'')))"
| "verdict_of v = Inl (PyExc KeyError v)"

definition parse_status_result :: "pyval \<Rightarrow> pyexc + string" where
  "parse_status_result homework =
     bind_exc (py_contains homework ''homework_name'') (\<lambda>has_name.
       if \<not> has_name then Inl (PyExc KeyError (PStr txt_no_homework_name))
       else
         bind_exc (py_get homework ''status'') (\<lambda>st.
         bind_exc (in_verdicts st) (\<lambda>known.
           if \<not> known then
             bind_exc (py_getitem homework ''status'') (\<lambda>shown.
               Inl (PyExc KeyError
                     (PStr (txt_unknown_status_pre @ py_str shown @ txt_unknown_status_post))))
           else
             bind_exc (py_get homework ''homework_name'') (\<lambda>homework_name.
             bind_exc (py_get homework ''lesson_name'') (\<lambda>lesson_name.
             bind_exc (py_get homework ''status'') (\<lambda>status.
             bind_exc (verdict_of status) (\<lambda>verdict.
               Inr (txt_status_changed @ py_str homework_name @ txt_sprint
                    @ py_str lesson_name @ txt_end_sprint @ verdict))))))))"

definition parse_status :: "pyval \<Rightarrow> event list \<times> (pyexc + string)" where
  "parse_status homework = ([Log INFO (py_str homework)], parse_status_result homework)"

subsection \<open>main\<close>

text \<open>The local variables of \<open>main\<close> that live across cycles.\<close>

record loop_state =
  timestamp :: pyval
  previous_error_message :: string
  previous_message :: string

text \<open>
  The body of the \<open>try\<close> block of one cycle: the state it leaves, the events, and the
  exception that ends it, if any. The cursor is assigned right after the fetch, before
  the response is validated.
\<close>

definition poll_try ::
  "config \<Rightarrow> world \<Rightarrow> loop_state \<Rightarrow> loop_state \<times> event list \<times> pyexc option" where
  "poll_try cfg w s =
     (let ev0 = [Log INFO (''Timestamp for checking '' @ py_str (timestamp s))] in
      case get_api_answer (requests_get w) (timestamp s) of
        (ev1, Inl e) \<Rightarrow> (s, ev0 @ ev1, Some e)
      | (ev1, Inr response) \<Rightarrow>
          (case py_getitem response ''current_date'' of
             Inl e \<Rightarrow> (s, ev0 @ ev1, Some e)
           | Inr ts \<Rightarrow>
               (let s1 = s\<lparr>timestamp := ts\<rparr>;
                    ev2 = ev0 @ ev1 @ [Log INFO (''Timestamp for next checking '' @ py_str ts)]
                in case check_response response of
                     Inl e \<Rightarrow> (s1, ev2, Some e)
                   | Inr [] \<Rightarrow> (s1, ev2 @ [Log DEBUG txt_no_changes], None)
                   | Inr (homework # rest) \<Rightarrow>
                       (case parse_status homework of
                          (ev3, Inl e) \<Rightarrow> (s1, ev2 @ ev3, Some e)
                        | (ev3, Inr message) \<Rightarrow>
                            if message \<noteq> previous_message s1
                            then (case send_message (transport_of (bot_send_message w))
                                         (TELEGRAM_CHAT_ID cfg) message of
                                    (ev4, Some e) \<Rightarrow> (s1, ev2 @ ev3 @ ev4, Some e)
                                  | (ev4, None) \<Rightarrow>
                                      (s1\<lparr>previous_message := message\<rparr>, ev2 @ ev3 @ ev4, None))
                            else (s1, ev2 @ ev3, None)))))"

text \<open>
  One pass of the \<open>while\<close> body: the \<open>try\<close> block, the handler of \<open>except
  Exception\<close>, and the sleep. An exception in the third component is one that leaves the
  loop.
\<close>

definition poll_cycle ::
  "config \<Rightarrow> world \<Rightarrow> loop_state \<Rightarrow> loop_state \<times> event list \<times> pyexc option" where
  "poll_cycle cfg w s =
     (case poll_try cfg w s of
        (s1, evs, None) \<Rightarrow> (s1, evs @ [Sleep RETRY_PERIOD], None)
      | (s1, evs, Some error) \<Rightarrow>
          if is_Exception error then
            (let message = txt_failure @ str_exc error;
                 evs1 = evs @ [Log ERROR message]
             in if previous_error_message s1 \<noteq> message
                then (case send_message (transport_of (bot_send_message w)) (TELEGRAM_CHAT_ID cfg) message of
                        (evs2, Some e) \<Rightarrow> (s1, evs1 @ evs2, Some e)
                      | (evs2, None) \<Rightarrow>
                          (s1\<lparr>previous_error_message := message\<rparr>,
                           evs1 @ evs2 @ [Sleep RETRY_PERIOD], None))
                else (s1, evs1 @ [Sleep RETRY_PERIOD], None))
          else (s1, evs, Some error))"

text \<open>
  \<open>while True\<close> never returns: a run is observed through its first cycles, one for
  each world of the list.
\<close>

fun poll_loop ::
  "config \<Rightarrow> world list \<Rightarrow> loop_state \<Rightarrow> loop_state \<times> event list \<times> pyexc option" where
  "poll_loop cfg [] s = (s, [], None)"
| "poll_loop cfg (w # ws) s =
     (case poll_cycle cfg w s of
        (s1, evs, Some e) \<Rightarrow> (s1, evs, Some e)
      | (s1, evs, None) \<Rightarrow>
          (case poll_loop cfg ws s1 of (s2, evs2, r) \<Rightarrow> (s2, evs @ evs2, r)))"

text \<open>
  \<open>main\<close>: the check of the configuration, the first notification (through the
  transport as it is at startup), the cursor set to the current time, the loop.
  \<open>exit()\<close> raises \<open>SystemExit\<close>. Creating the \<open>telegram.Bot\<close> object is taken to
  succeed.
\<close>

definition main ::
  "config \<Rightarrow> (string \<Rightarrow> string \<Rightarrow> string option) \<Rightarrow> int \<Rightarrow> world list
     \<Rightarrow> event list \<times> pyexc option" where
  "main cfg bot0 now ws =
     (case check_tokens cfg of
        Inl (PyExc c a) \<Rightarrow>
          if c = EnvironmentVariableDoesNotExist
          then ([Log CRITICAL (str_exc (PyExc c a) @ txt_halted)], Some (PyExc SystemExit PNone))
          else ([], Some (PyExc c a))
      | Inr u \<Rightarrow>
          (case send_message (transport_of bot0) (TELEGRAM_CHAT_ID cfg)
                  (txt_checking_pre @ str_int RETRY_PERIOD @ txt_checking_post) of
             (ev0, Some e) \<Rightarrow> (ev0, Some e)
           | (ev0, None) \<Rightarrow>
               (case poll_loop cfg ws
                       \<lparr>timestamp = PInt now, previous_error_message = [],
                        previous_message = []\<rparr> of
                  (s, evs, r) \<Rightarrow> (ev0 @ evs, r))))"

section \<open>Observations on runs\<close>

text \<open>The texts passed to the messaging API and the cursors sent to the status API.\<close>

primrec sent_texts :: "event list \<Rightarrow> string list" where
  "sent_texts [] = []"
| "sent_texts (e # es) = (case e of BotSend c m \<Rightarrow> m # sent_texts es | _ \<Rightarrow> sent_texts es)"

primrec api_requests :: "event list \<Rightarrow> pyval list" where
  "api_requests [] = []"
| "api_requests (e # es) = (case e of ApiRequest ts \<Rightarrow> ts # api_requests es | _ \<Rightarrow> api_requests es)"

text \<open>
  The text of the failure notification of a cycle (\<open>None\<close> when the \<open>try\<close> block
  ends normally), and the message the first homework interprets to (\<open>None\<close> when the
  cycle fails or the list is empty).
\<close>

definition cycle_failure :: "config \<Rightarrow> world \<Rightarrow> loop_state \<Rightarrow> string option" where
  "cycle_failure cfg w s =
     (case poll_try cfg w s of
        (s1, evs, None) \<Rightarrow> None
      | (s1, evs, Some error) \<Rightarrow> Some (txt_failure @ str_exc error))"

definition cycle_message :: "world \<Rightarrow> loop_state \<Rightarrow> string option" where
  "cycle_message w s =
     (case get_api_answer (requests_get w) (timestamp s) of
        (ev1, Inl e) \<Rightarrow> None
      | (ev1, Inr response) \<Rightarrow>
          (case py_getitem response ''current_date'' of
             Inl e \<Rightarrow> None
           | Inr ts \<Rightarrow>
               (case check_response response of
                  Inl e \<Rightarrow> None
                | Inr [] \<Rightarrow> None
                | Inr (homework # rest) \<Rightarrow>
                    (case parse_status homework of
                       (ev3, Inl e) \<Rightarrow> None
                     | (ev3, Inr message) \<Rightarrow> Some message))))"

text \<open>
  The \<open>current_date\<close> read from the response of a successful fetch (\<open>None\<close> when
  the fetch raises, or when the read of \<open>response["current_date"]\<close> raises).
\<close>

definition fetched_cursor :: "world \<Rightarrow> loop_state \<Rightarrow> pyval option" where
  "fetched_cursor w s =
     (case get_api_answer (requests_get w) (timestamp s) of
        (ev1, Inl e) \<Rightarrow> None
      | (ev1, Inr response) \<Rightarrow>
          (case py_getitem response ''current_date'' of
             Inl e \<Rightarrow> None
           | Inr ts \<Rightarrow> Some ts))"

text \<open>The state after a cycle and the events of a cycle.\<close>

definition cycle_state :: "config \<Rightarrow> world \<Rightarrow> loop_state \<Rightarrow> loop_state" where
  "cycle_state cfg w s = fst (poll_cycle cfg w s)"

definition cycle_events :: "config \<Rightarrow> world \<Rightarrow> loop_state \<Rightarrow> event list" where
  "cycle_events cfg w s = fst (snd (poll_cycle cfg w s))"

definition cycle_raised :: "config \<Rightarrow> world \<Rightarrow> loop_state \<Rightarrow> pyexc option" where
  "cycle_raised cfg w s = snd (snd (poll_cycle cfg w s))"

text \<open>The exception that ends the \<open>try\<close> block of a cycle, if any.\<close>

definition cycle_exception :: "config \<Rightarrow> world \<Rightarrow> loop_state \<Rightarrow> pyexc option" where
  "cycle_exception cfg w s = snd (snd (poll_try cfg w s))"

text \<open>
  Over a run: the failure text of each cycle in turn, and the texts sent by the failing
  cycles.
\<close>

fun failures :: "config \<Rightarrow> world list \<Rightarrow> loop_state \<Rightarrow> string option list" where
  "failures cfg [] s = []"
| "failures cfg (w # ws) s = cycle_failure cfg w s # failures cfg ws (cycle_state cfg w s)"

fun error_sends :: "config \<Rightarrow> world list \<Rightarrow> loop_state \<Rightarrow> string list" where
  "error_sends cfg [] s = []"
| "error_sends cfg (w # ws) s =
     (if cycle_failure cfg w s = None then [] else sent_texts (cycle_events cfg w s))
     @ error_sends cfg ws (cycle_state cfg w s)"

text \<open>
  The rule of the specification for error notifications: a failure text is sent when it
  differs from the text of the failure before it; cycles without a failure are passed
  over and leave the remembered text as it is.
\<close>

fun expected_error_sends :: "string \<Rightarrow> string option list \<Rightarrow> string list" where
  "expected_error_sends p [] = []"
| "expected_error_sends p (None # fs) = expected_error_sends p fs"
| "expected_error_sends p (Some t # fs) =
     (if t = p then [] else [t]) @ expected_error_sends t fs"

text \<open>A run in which every cycle interprets its first homework to the message \<open>m\<close>.\<close>

fun streak :: "config \<Rightarrow> string \<Rightarrow> world list \<Rightarrow> loop_state \<Rightarrow> bool" where
  "streak cfg m [] s = True"
| "streak cfg m (w # ws) s =
     (cycle_message w s = Some m \<and> streak cfg m ws (cycle_state cfg w s))"

definition run_events :: "config \<Rightarrow> world list \<Rightarrow> loop_state \<Rightarrow> event list" where
  "run_events cfg ws s = fst (snd (poll_loop cfg ws s))"

section \<open>Example inputs\<close>

definition ex_config :: config where
  "ex_config = \<lparr>PRACTICUM_TOKEN = ''p-token'', TELEGRAM_TOKEN = ''t-token'',
                 TELEGRAM_CHAT_ID = ''42''\<rparr>"

definition ex_config_no_chat :: config where
  "ex_config_no_chat = \<lparr>PRACTICUM_TOKEN = ''p-token'', TELEGRAM_TOKEN = ''t-token'',
                         TELEGRAM_CHAT_ID = ''''\<rparr>"

definition bot_ok :: "string \<Rightarrow> string \<Rightarrow> string option" where
  "bot_ok chat_id text = None"

definition bot_down :: "string \<Rightarrow> string \<Rightarrow> string option" where
  "bot_down chat_id text = Some ''Timed out''"

text \<open>A transport that is interrupted (Ctrl-C) while it sends.\<close>

definition bot_interrupted :: transport where
  "bot_interrupted chat_id text = Some (PyExc KeyboardInterrupt (PStr []))"

definition ex_state :: loop_state where
  "ex_state = \<lparr>timestamp = PInt 100, previous_error_message = [], previous_message = []\<rparr>"

definition ex_homework :: pyval where
  "ex_homework = PDict [(''homework_name'', PStr ''hw''), (''status'', PStr ''approved'')]"

text \<open>The message that \<open>ex_homework\<close> interprets to; it has no \<open>lesson_name\<close>.\<close>

definition ex_message :: string where
  "ex_message =
     txt_status_changed @ ''hw'' @ txt_sprint @ ''None'' @ txt_end_sprint
     @ HOMEWORK_VERDICT_approved"

text \<open>A valid response with no homework.\<close>

definition ex_response_empty :: pyval where
  "ex_response_empty = PDict [(''homeworks'', PList []), (''current_date'', PInt 50)]"

text \<open>A response whose \<open>homeworks\<close> is a string.\<close>

definition ex_response_bad :: pyval where
  "ex_response_bad = PDict [(''homeworks'', PStr ''x''), (''current_date'', PInt 50)]"

text \<open>A response with a homework and no \<open>current_date\<close>.\<close>

definition ex_response_no_date :: pyval where
  "ex_response_no_date = PDict [(''homeworks'', PList [ex_homework])]"

definition ex_response_approved :: pyval where
  "ex_response_approved =
     PDict [(''homeworks'', PList [ex_homework]), (''current_date'', PInt 50)]"

definition serve :: "pyval \<Rightarrow> pyval \<Rightarrow> http_outcome" where
  "serve response ts = HttpResponse 200 ''body'' (Inr response)"

definition serve_503 :: "pyval \<Rightarrow> http_outcome" where
  "serve_503 ts = HttpResponse 503 ''Service Unavailable'' (Inl ''no JSON'')"

definition serve_refused :: "pyval \<Rightarrow> http_outcome" where
  "serve_refused ts = RequestException ''Connection refused''"

definition world_empty :: world where
  "world_empty = \<lparr>requests_get = serve ex_response_empty, bot_send_message = bot_ok\<rparr>"

definition world_bad :: world where
  "world_bad = \<lparr>requests_get = serve ex_response_bad, bot_send_message = bot_ok\<rparr>"

definition world_no_date :: world where
  "world_no_date = \<lparr>requests_get = serve ex_response_no_date, bot_send_message = bot_ok\<rparr>"

definition world_approved :: world where
  "world_approved = \<lparr>requests_get = serve ex_response_approved, bot_send_message = bot_ok\<rparr>"

definition world_approved_bot_down :: world where
  "world_approved_bot_down =
     \<lparr>requests_get = serve ex_response_approved, bot_send_message = bot_down\<rparr>"

definition world_503 :: world where
  "world_503 = \<lparr>requests_get = serve_503, bot_send_message = bot_ok\<rparr>"

definition world_503_bot_down :: world where
  "world_503_bot_down = \<lparr>requests_get = serve_503, bot_send_message = bot_down\<rparr>"

definition world_refused :: world where
  "world_refused = \<lparr>requests_get = serve_refused, bot_send_message = bot_ok\<rparr>"

section \<open>Basic facts\<close>

lemma sent_texts_append: "sent_texts (xs @ ys) = sent_texts xs @ sent_texts ys"
  by (induction xs) (auto split: event.splits)

lemma api_requests_append: "api_requests (xs @ ys) = api_requests xs @ api_requests ys"
  by (induction xs) (auto split: event.splits)

lemma send_message_raises: "snd (send_message (transport_of b) c m) = None"
  by (cases "b c m") (simp_all add: send_message_def transport_of_def)

lemma send_message_sent: "sent_texts (fst (send_message b c m)) = [m]"
  by (simp add: send_message_def split: option.splits)

text \<open>Every exception of the fetch, the validation and the interpretation is an \<open>Exception\<close>.\<close>

lemma py_getitem_exc: "py_getitem v k = Inl e \<Longrightarrow> is_Exception e"
  by (cases v) (auto split: option.splits)

lemma py_get_exc: "py_get v k = Inl e \<Longrightarrow> is_Exception e"
  by (cases v) auto

lemma py_contains_exc: "py_contains v k = Inl e \<Longrightarrow> is_Exception e"
  by (cases v) auto

lemma in_verdicts_exc: "in_verdicts v = Inl e \<Longrightarrow> is_Exception e"
  by (cases v) auto

lemma verdict_of_exc: "verdict_of v = Inl e \<Longrightarrow> is_Exception e"
  by (cases v) (auto split: option.splits)

lemma check_response_exc: "check_response r = Inl e \<Longrightarrow> is_Exception e"
  by (auto simp: check_response_def split: pyval.splits option.splits)

lemma get_api_answer_exc: "get_api_answer g t = (ev, Inl e) \<Longrightarrow> is_Exception e"
  by (auto simp: get_api_answer_def JSONDecodeError_of_message_def
      split: http_outcome.splits if_splits sum.splits)

lemma get_api_answer_sent: "get_api_answer g t = (ev, r) \<Longrightarrow> sent_texts ev = []"
  by (auto simp: get_api_answer_def split: http_outcome.splits if_splits sum.splits)

lemma bind_exc_Inl:
  "bind_exc r f = Inl e \<Longrightarrow> r = Inl e \<or> (\<exists>v. r = Inr v \<and> f v = Inl e)"
  by (cases r) (auto simp: bind_exc_def)

lemma parse_status_result_exc: "parse_status_result h = Inl e \<Longrightarrow> is_Exception e"
  unfolding parse_status_result_def
  apply (auto dest!: bind_exc_Inl split: if_splits)
  apply (fact py_contains_exc py_get_exc in_verdicts_exc py_getitem_exc verdict_of_exc
      | erule py_contains_exc py_get_exc in_verdicts_exc py_getitem_exc verdict_of_exc)+
  done

lemma parse_status_exc: "parse_status h = (ev, Inl e) \<Longrightarrow> is_Exception e"
  by (auto simp: parse_status_def dest: parse_status_result_exc)

lemma parse_status_sent: "parse_status h = (ev, r) \<Longrightarrow> sent_texts ev = []"
  by (auto simp: parse_status_def)

lemma poll_try_exc: "poll_try cfg w s = (s1, evs, Some e) \<Longrightarrow> is_Exception e"
  unfolding poll_try_def Let_def
  by (auto split: prod.splits sum.splits list.splits if_splits option.splits
      intro: get_api_answer_exc py_getitem_exc check_response_exc parse_status_exc
      dest: arg_cong[where f=snd] simp: send_message_raises)

lemma poll_try_prev_error:
  "poll_try cfg w s = (s1, evs, r) \<Longrightarrow> previous_error_message s1 = previous_error_message s"
  unfolding poll_try_def Let_def
  by (auto split: prod.splits sum.splits list.splits if_splits option.splits)

lemma poll_try_sent_failure:
  "poll_try cfg w s = (s1, evs, Some e) \<Longrightarrow> sent_texts evs = []"
  unfolding poll_try_def Let_def
  by (auto split: prod.splits sum.splits list.splits if_splits option.splits
      simp: sent_texts_append dest: get_api_answer_sent parse_status_sent
      dest: arg_cong[where f=snd] simp: send_message_raises)

lemma poll_cycle_never_raises: "snd (snd (poll_cycle cfg w s)) = None"
  unfolding poll_cycle_def Let_def
  by (auto split: prod.splits option.splits dest: poll_try_exc
      simp: send_message_raises dest: arg_cong[where f=snd])

lemma cycle_prev_error:
  "previous_error_message (cycle_state cfg w s) =
     (case cycle_failure cfg w s of None \<Rightarrow> previous_error_message s | Some t \<Rightarrow> t)"
  unfolding cycle_state_def cycle_failure_def poll_cycle_def Let_def
  by (auto split: prod.splits option.splits dest: poll_try_exc poll_try_prev_error
      simp: send_message_raises dest: arg_cong[where f=snd])

lemma check_vars_empty:
  "[] \<in> snd ` set vs \<Longrightarrow>
     \<exists>t. check_vars vs = Inl (PyExc EnvironmentVariableDoesNotExist (PStr t))"
  by (induction vs rule: check_vars.induct) auto

subsection \<open>One cycle: what is sent and what is remembered\<close>

lemma send_message_result:
  "send_message (transport_of b) c m = (evs, r) \<Longrightarrow> r = None \<and> sent_texts evs = [m]"
  by (cases "b c m") (auto simp: send_message_def transport_of_def)

lemma send_message_obtain:
  obtains evs where "send_message (transport_of b) c m = (evs, None)" and "sent_texts evs = [m]"
  using send_message_result [of b c m] by (cases "send_message (transport_of b) c m") auto

lemma cycle_failure_sends:
  "cycle_failure cfg w s = Some t \<Longrightarrow>
     sent_texts (cycle_events cfg w s) = (if t = previous_error_message s then [] else [t])"
proof -
  assume a: "cycle_failure cfg w s = Some t"
  then obtain s1 evs e where p: "poll_try cfg w s = (s1, evs, Some e)"
    and t: "t = txt_failure @ str_exc e"
    by (auto simp: cycle_failure_def split: prod.splits option.splits)
  have e: "is_Exception e" and se: "sent_texts evs = []"
    and pe: "previous_error_message s1 = previous_error_message s"
    using p poll_try_exc poll_try_sent_failure poll_try_prev_error by blast+
  obtain evs2 where sm: "send_message (transport_of (bot_send_message w)) (TELEGRAM_CHAT_ID cfg) t = (evs2, None)"
    and s2: "sent_texts evs2 = [t]"
    by (rule send_message_obtain)
  show ?thesis
    using p e se pe sm s2 t
    by (simp add: cycle_events_def poll_cycle_def Let_def sent_texts_append)
qed

lemma cycle_message_SomeD:
  "cycle_message w s = Some m \<Longrightarrow>
     \<exists>ev1 response ts homework rest ev3.
        get_api_answer (requests_get w) (timestamp s) = (ev1, Inr response)
        \<and> py_getitem response ''current_date'' = Inr ts
        \<and> check_response response = Inr (homework # rest)
        \<and> parse_status homework = (ev3, Inr m)"
  unfolding cycle_message_def
  by (auto split: prod.splits sum.splits list.splits)

lemma cycle_message_try:
  assumes "cycle_message w s = Some m"
  shows "\<exists>evs s1. poll_try cfg w s = (s1, evs, None) \<and> previous_message s1 = m
        \<and> previous_error_message s1 = previous_error_message s
        \<and> sent_texts evs = (if m = previous_message s then [] else [m])"
proof -
  from cycle_message_SomeD [OF assms] obtain ev1 response ts homework rest ev3 where
    g: "get_api_answer (requests_get w) (timestamp s) = (ev1, Inr response)"
    and c: "py_getitem response ''current_date'' = Inr ts"
    and v: "check_response response = Inr (homework # rest)"
    and p: "parse_status homework = (ev3, Inr m)"
    by blast
  have s1: "sent_texts ev1 = []" and s3: "sent_texts ev3 = []"
    using g p get_api_answer_sent parse_status_sent by blast+
  obtain ev4 where sm: "send_message (transport_of (bot_send_message w)) (TELEGRAM_CHAT_ID cfg) m = (ev4, None)"
    and s4: "sent_texts ev4 = [m]"
    by (rule send_message_obtain)
  show ?thesis
    using g c v p s1 s3 sm s4
    by (simp add: poll_try_def Let_def sent_texts_append)
qed

lemma cycle_message_sends:
  assumes "cycle_message w s = Some m"
  shows "sent_texts (cycle_events cfg w s) = (if m = previous_message s then [] else [m])"
    and "previous_message (cycle_state cfg w s) = m"
    and "previous_error_message (cycle_state cfg w s) = previous_error_message s"
    and "cycle_failure cfg w s = None"
  using cycle_message_try [OF assms, of cfg]
  by (auto simp: cycle_events_def cycle_state_def cycle_failure_def poll_cycle_def
      sent_texts_append)

lemma poll_try_no_message:
  "cycle_message w s = None \<Longrightarrow> poll_try cfg w s = (s1, evs, r) \<Longrightarrow>
     previous_message s1 = previous_message s"
  unfolding cycle_message_def poll_try_def Let_def
  by (auto split: prod.splits sum.splits list.splits if_splits option.splits)

lemma poll_try_quiet:
  "cycle_message w s = None \<Longrightarrow> poll_try cfg w s = (s1, evs, None) \<Longrightarrow> sent_texts evs = []"
  unfolding cycle_message_def poll_try_def Let_def
  by (auto split: prod.splits sum.splits list.splits if_splits option.splits
      simp: sent_texts_append get_api_answer_sent)

subsection \<open>One cycle: the cursor; runs of cycles\<close>

lemma poll_try_timestamp:
  "poll_try cfg w s = (s1, evs, r) \<Longrightarrow>
     timestamp s1 = (case fetched_cursor w s of None \<Rightarrow> timestamp s | Some ts \<Rightarrow> ts)"
  unfolding fetched_cursor_def poll_try_def Let_def
  by (auto split: prod.splits sum.splits list.splits if_splits option.splits)

lemma cycle_timestamp:
  "timestamp (cycle_state cfg w s) =
     (case fetched_cursor w s of None \<Rightarrow> timestamp s | Some ts \<Rightarrow> ts)"
proof -
  obtain s1 evs r where p: "poll_try cfg w s = (s1, evs, r)"
    by (cases "poll_try cfg w s") auto
  have "timestamp (fst (poll_cycle cfg w s)) = timestamp s1"
    using p send_message_raises [of "bot_send_message w" "TELEGRAM_CHAT_ID cfg"]
    by (auto simp: poll_cycle_def Let_def split: option.splits prod.splits)
  then show ?thesis
    using poll_try_timestamp [OF p] by (simp add: cycle_state_def)
qed

lemma cycle_prev_message:
  "previous_message (cycle_state cfg w s) =
     (case cycle_message w s of None \<Rightarrow> previous_message s | Some m \<Rightarrow> m)"
proof (cases "cycle_message w s")
  case None
  obtain s1 evs r where p: "poll_try cfg w s = (s1, evs, r)"
    by (cases "poll_try cfg w s") auto
  have "previous_message (fst (poll_cycle cfg w s)) = previous_message s1"
    using p by (auto simp: poll_cycle_def Let_def split: option.splits prod.splits)
  then show ?thesis
    using None poll_try_no_message [OF None p] by (simp add: cycle_state_def)
next
  case (Some m)
  then show ?thesis by (simp add: cycle_message_sends)
qed

lemma cycle_quiet_sends:
  assumes "cycle_message w s = None" and "cycle_failure cfg w s = None"
  shows "sent_texts (cycle_events cfg w s) = []"
proof -
  from assms(2) obtain s1 evs where p: "poll_try cfg w s = (s1, evs, None)"
    by (auto simp: cycle_failure_def split: prod.splits option.splits)
  show ?thesis
    using p poll_try_quiet [OF assms(1) p]
    by (simp add: cycle_events_def poll_cycle_def sent_texts_append)
qed

lemma poll_loop_Cons:
  "poll_loop cfg (w # ws) s =
     (case poll_loop cfg ws (cycle_state cfg w s) of
        (s2, evs2, r) \<Rightarrow> (s2, cycle_events cfg w s @ evs2, r))"
  using poll_cycle_never_raises [of cfg w s]
  by (cases "poll_cycle cfg w s") (auto simp: cycle_state_def cycle_events_def)

lemma run_events_Cons:
  "run_events cfg (w # ws) s = cycle_events cfg w s @ run_events cfg ws (cycle_state cfg w s)"
  unfolding run_events_def poll_loop_Cons by (simp split: prod.splits)

lemma run_events_Nil: "run_events cfg [] s = []"
  by (simp add: run_events_def)

lemma poll_loop_never_raises: "snd (snd (poll_loop cfg ws s)) = None"
proof (induction ws arbitrary: s)
  case Nil
  then show ?case by simp
next
  case (Cons w ws)
  obtain s2 evs2 r where p: "poll_loop cfg ws (cycle_state cfg w s) = (s2, evs2, r)"
    by (cases "poll_loop cfg ws (cycle_state cfg w s)") auto
  with Cons.IH [of "cycle_state cfg w s"] have "r = None" by simp
  with p show ?case by (simp add: poll_loop_Cons del: poll_loop.simps)
qed

lemma streak_sends:
  "streak cfg m ws s \<Longrightarrow>
     sent_texts (run_events cfg ws s) = (if ws \<noteq> [] \<and> m \<noteq> previous_message s then [m] else [])"
proof (induction ws arbitrary: s)
  case Nil
  then show ?case by (simp add: run_events_Nil)
next
  case (Cons w ws)
  then have m: "cycle_message w s = Some m" and st: "streak cfg m ws (cycle_state cfg w s)"
    by simp_all
  have "sent_texts (run_events cfg ws (cycle_state cfg w s)) = []"
    using Cons.IH [OF st] cycle_message_sends(2) [OF m] by simp
  then show ?case
    using cycle_message_sends(1) [OF m] by (simp add: run_events_Cons sent_texts_append)
qed

lemma error_sends_expected:
  "error_sends cfg ws s = expected_error_sends (previous_error_message s) (failures cfg ws s)"
proof (induction ws arbitrary: s)
  case Nil
  then show ?case by simp
next
  case (Cons w ws)
  show ?case
  proof (cases "cycle_failure cfg w s")
    case None
    then show ?thesis
      using Cons.IH [of "cycle_state cfg w s"] cycle_prev_error [of cfg w s] by simp
  next
    case (Some t)
    then show ?thesis
      using Cons.IH [of "cycle_state cfg w s"] cycle_prev_error [of cfg w s]
        cycle_failure_sends [OF Some] by simp
  qed
qed

subsection \<open>Requests to the status API; the silent cycle\<close>

lemma get_api_answer_requests: "get_api_answer g t = (ev, r) \<Longrightarrow> api_requests ev = [t]"
  by (auto simp: get_api_answer_def split: http_outcome.splits if_splits sum.splits)

lemma parse_status_requests: "parse_status h = (ev, r) \<Longrightarrow> api_requests ev = []"
  by (auto simp: parse_status_def)

lemma send_message_requests: "send_message b c m = (ev, r) \<Longrightarrow> api_requests ev = []"
  by (auto simp: send_message_def split: option.splits if_splits)

lemma poll_try_requests:
  assumes "poll_try cfg w s = (s1, evs, r)"
  shows "api_requests evs = [timestamp s]"
proof -
  obtain ev1 r1 where g: "get_api_answer (requests_get w) (timestamp s) = (ev1, r1)"
    by (cases "get_api_answer (requests_get w) (timestamp s)") auto
  note a1 = get_api_answer_requests [OF g]
  have p: "\<And>h. api_requests (fst (parse_status h)) = []"
    by (simp add: parse_status_def)
  have m: "\<And>b c m. api_requests (fst (send_message b c m)) = []"
    by (simp add: send_message_def split: option.splits)
  show ?thesis
    using assms g a1
    unfolding poll_try_def Let_def
    by (auto split: prod.splits sum.splits list.splits if_splits option.splits
        simp: api_requests_append dest!: parse_status_requests send_message_requests)
qed

lemma cycle_requests: "api_requests (cycle_events cfg w s) = [timestamp s]"
proof -
  obtain s1 evs r where p: "poll_try cfg w s = (s1, evs, r)"
    by (cases "poll_try cfg w s") auto
  show ?thesis
    using p poll_try_requests [OF p]
    unfolding cycle_events_def poll_cycle_def Let_def
    by (auto split: option.splits prod.splits simp: api_requests_append
        dest!: send_message_requests)
qed

lemma check_response_InrD:
  "check_response response = Inr hs \<Longrightarrow>
     \<exists>cd. py_getitem response ''current_date'' = Inr cd"
  by (auto simp: check_response_def split: pyval.splits option.splits)

lemma poll_try_empty:
  assumes "get_api_answer (requests_get w) (timestamp s) = (ev, Inr response)"
    and "check_response response = Inr []"
    and "py_getitem response ''current_date'' = Inr cd"
  shows "\<exists>evs. poll_try cfg w s = (s\<lparr>timestamp := cd\<rparr>, evs, None) \<and> sent_texts evs = []"
  using assms get_api_answer_sent [OF assms(1)]
  by (simp add: poll_try_def Let_def sent_texts_append)

subsection \<open>Which exceptions the try block can end with\<close>

lemma no_current_date_distinct:
  "txt_no_current_date \<noteq> ''current_date''"
  "txt_no_current_date \<noteq> ''status''"
  "txt_no_current_date \<noteq> txt_no_homeworks"
  "txt_no_current_date \<noteq> txt_no_homework_name"
  "txt_no_current_date \<noteq> txt_unknown_status_pre @ x"
  by (simp_all add: txt_no_current_date_def txt_no_homeworks_def txt_no_homework_name_def
      txt_unknown_status_pre_def)

lemmas no_current_date_neq = no_current_date_distinct no_current_date_distinct [symmetric]

lemma py_getitem_not_validator:
  "py_getitem v k = Inl e \<Longrightarrow> e = PyExc KeyError (PStr k) \<or> (\<exists>a. e = PyExc TypeError a)"
  by (cases v) (auto split: option.splits)

lemma py_get_not_KeyError: "py_get v k = Inl e \<Longrightarrow> \<exists>a. e = PyExc AttributeError a"
  by (cases v) auto

lemma py_contains_not_KeyError: "py_contains v k = Inl e \<Longrightarrow> \<exists>a. e = PyExc TypeError a"
  by (cases v) auto

lemma in_verdicts_not_KeyError: "in_verdicts v = Inl e \<Longrightarrow> \<exists>a. e = PyExc TypeError a"
  by (cases v) auto

lemma verdict_of_known: "in_verdicts v = Inr True \<Longrightarrow> \<exists>verdict. verdict_of v = Inr verdict"
  by (cases v) auto

lemma get_api_answer_not_KeyError:
  "get_api_answer g t = (ev, Inl e) \<Longrightarrow>
     (\<exists>a. e = PyExc EndpointDisable a) \<or> (\<exists>a. e = PyExc TypeError a)"
  by (auto simp: get_api_answer_def JSONDecodeError_of_message_def
      split: http_outcome.splits if_splits sum.splits)

lemma check_response_not_validator:
  "check_response r = Inl e \<Longrightarrow> py_getitem r ''current_date'' = Inr ts \<Longrightarrow>
     e \<noteq> PyExc KeyError (PStr txt_no_current_date)"
  by (auto simp: check_response_def no_current_date_neq
      split: pyval.splits option.splits)

lemma parse_status_result_not_validator:
  "parse_status_result h = Inl e \<Longrightarrow> e \<noteq> PyExc KeyError (PStr txt_no_current_date)"
  unfolding parse_status_result_def
  apply (auto dest!: bind_exc_Inl split: if_splits simp: no_current_date_neq
      dest!: py_get_not_KeyError py_contains_not_KeyError in_verdicts_not_KeyError
        py_getitem_not_validator verdict_of_known)
  done

lemma poll_try_not_validator:
  "poll_try cfg w s = (s1, evs, Some e) \<Longrightarrow> e \<noteq> PyExc KeyError (PStr txt_no_current_date)"
  unfolding poll_try_def Let_def
  apply (auto split: prod.splits sum.splits list.splits if_splits option.splits
      dest!: get_api_answer_not_KeyError py_getitem_not_validator send_message_result
      simp: no_current_date_neq parse_status_def
      dest: check_response_not_validator parse_status_result_not_validator)
  done

subsection \<open>The example inputs, evaluated\<close>

lemma fetch_serve:
  "get_api_answer (serve response) ts = ([ApiRequest ts, Log INFO ''body''], Inr response)"
  by (simp add: get_api_answer_def serve_def)

lemma fetch_503:
  "get_api_answer serve_503 ts =
     ([ApiRequest ts], Inl (PyExc EndpointDisable (PStr (txt_endpoint_status @ ''503''))))"
  by (simp add: get_api_answer_def serve_503_def str_int_def str_nat.simps digit_char_def)

lemma fetch_refused:
  "get_api_answer serve_refused ts =
     ([ApiRequest ts],
      Inl (PyExc EndpointDisable
            (PStr (txt_request_failed_pre @ ''Connection refused'' @ txt_request_failed_post))))"
  by (simp add: get_api_answer_def serve_refused_def)

lemma parse_ex_homework: "parse_status_result ex_homework = Inr ex_message"
  by (simp add: parse_status_result_def bind_exc_def ex_homework_def ex_message_def
      HOMEWORK_VERDICTS_def)

lemma check_ex_responses:
  "check_response ex_response_empty = Inr []"
  "check_response ex_response_bad = Inl (PyExc TypeError (PStr txt_homeworks_not_list))"
  "check_response ex_response_approved = Inr [ex_homework]"
  "check_response ex_response_no_date = Inl (PyExc KeyError (PStr txt_no_current_date))"
  by (simp_all add: check_response_def ex_response_empty_def ex_response_bad_def
      ex_response_approved_def ex_response_no_date_def)

lemma cursor_ex_responses:
  "py_getitem ex_response_empty ''current_date'' = Inr (PInt 50)"
  "py_getitem ex_response_bad ''current_date'' = Inr (PInt 50)"
  "py_getitem ex_response_approved ''current_date'' = Inr (PInt 50)"
  "py_getitem ex_response_no_date ''current_date'' = Inl (PyExc KeyError (PStr ''current_date''))"
  by (simp_all add: ex_response_empty_def ex_response_bad_def
      ex_response_approved_def ex_response_no_date_def)

lemmas world_defs = world_empty_def world_bad_def world_no_date_def world_approved_def
  world_approved_bot_down_def world_503_def world_503_bot_down_def world_refused_def

lemmas example_facts = fetch_serve fetch_503 fetch_refused parse_ex_homework
  check_ex_responses cursor_ex_responses

lemma ex_cycle_message:
  "cycle_message world_approved s = Some ex_message"
  "cycle_message world_approved_bot_down s = Some ex_message"
  "cycle_message world_empty s = None"
  by (simp_all add: cycle_message_def world_defs example_facts parse_status_def)

lemma ex_cycle_failure:
  "cycle_failure cfg world_503 s = Some (txt_failure @ txt_endpoint_status @ ''503'')"
  "cycle_failure cfg world_503_bot_down s = Some (txt_failure @ txt_endpoint_status @ ''503'')"
  "cycle_failure cfg world_refused s =
     Some (txt_failure @ txt_request_failed_pre @ ''Connection refused'' @ txt_request_failed_post)"
  "cycle_failure cfg world_bad s = Some (txt_failure @ txt_homeworks_not_list)"
  "cycle_failure cfg world_empty s = None"
  by (simp_all add: cycle_failure_def poll_try_def world_defs example_facts)

lemma ex_fetched_cursor:
  "fetched_cursor world_503 s = None"
  "fetched_cursor world_bad s = Some (PInt 50)"
  "fetched_cursor world_empty s = Some (PInt 50)"
  "fetched_cursor world_no_date s = None"
  by (simp_all add: fetched_cursor_def world_defs example_facts)

lemma ex_cycle_exception:
  "cycle_exception cfg world_no_date s = Some (PyExc KeyError (PStr ''current_date''))"
  by (simp add: cycle_exception_def poll_try_def world_defs example_facts)

lemma ex_texts_nonempty:
  "ex_message \<noteq> []" "txt_failure @ x \<noteq> []"
  by (simp_all add: ex_message_def txt_status_changed_def txt_failure_def)

section \<open>The notification sink\<close>

text \<open>
  Claim C8, as stated, says that \<open>send_message\<close> never raises, whatever the transport
  does. Its handler is \<open>except Exception\<close>: an exception of the transport that is not
  an \<open>Exception\<close> leaves the function. A \<open>KeyboardInterrupt\<close> raised while the
  transport sends reaches the caller, as the \<open>except KeyboardInterrupt\<close> around
  \<open>main()\<close> expects.
\<close>

theorem send_message_never_raises_counterexample:
  "bot_interrupted ''42'' ''hello'' = Some (PyExc KeyboardInterrupt (PStr []))
   \<and> send_message bot_interrupted ''42'' ''hello''
       = ([BotSend ''42'' ''hello''], Some (PyExc KeyboardInterrupt (PStr [])))"
  by (simp add: send_message_def bot_interrupted_def)

text \<open>
  Claim C8, amended. For every text, \<open>send_message\<close> calls the transport once. When
  the transport delivers, one debug record is logged and the function returns normally.
  When the transport raises an \<open>Exception\<close>, the failure is caught and only logged:
  one error record with the text of the failure, and the function returns normally.
  Only an exception that is not an \<open>Exception\<close> leaves the function, unlogged.
\<close>

theorem send_message_catches_delivery_failures:
  "(bot_send chat_id message = None \<longrightarrow>
      send_message bot_send chat_id message
        = ([BotSend chat_id message, Log DEBUG (txt_sent_pre @ message @ txt_sent_post)], None))
   \<and> (\<forall>error. bot_send chat_id message = Some error \<and> is_Exception error \<longrightarrow>
          send_message bot_send chat_id message
            = ([BotSend chat_id message,
                Log ERROR (txt_send_failed_pre @ str_exc error @ txt_send_failed_post)], None))
   \<and> (\<forall>error. bot_send chat_id message = Some error \<and> \<not> is_Exception error \<longrightarrow>
          send_message bot_send chat_id message = ([BotSend chat_id message], Some error))
   \<and> sent_texts (fst (send_message bot_send chat_id message)) = [message]"
  by (simp add: send_message_def split: option.splits)

theorem send_message_catches_delivery_failures_witness:
  "transport_of bot_down ''42'' ''hello'' = Some (PyExc TelegramError (PStr ''Timed out''))
   \<and> is_Exception (PyExc TelegramError (PStr ''Timed out''))
   \<and> send_message (transport_of bot_down) ''42'' ''hello''
       = ([BotSend ''42'' ''hello'',
           Log ERROR (txt_send_failed_pre @ ''Timed out'' @ txt_send_failed_post)], None)
   \<and> transport_of bot_ok ''42'' ''hello'' = None
   \<and> send_message (transport_of bot_ok) ''42'' ''hello''
       = ([BotSend ''42'' ''hello'',
           Log DEBUG (txt_sent_pre @ ''hello'' @ txt_sent_post)], None)"
proof -
  have d: "transport_of bot_down ''42'' ''hello'' = Some (PyExc TelegramError (PStr ''Timed out''))"
    by (simp add: transport_of_def bot_down_def)
  have e: "is_Exception (PyExc TelegramError (PStr ''Timed out''))"
    by simp
  have k: "transport_of bot_ok ''42'' ''hello'' = None"
    by (simp add: transport_of_def bot_ok_def)
  from send_message_catches_delivery_failures [of "transport_of bot_down" "''42''" "''hello''"]
    d e
  have f: "send_message (transport_of bot_down) ''42'' ''hello''
             = ([BotSend ''42'' ''hello'',
                 Log ERROR (txt_send_failed_pre @ ''Timed out'' @ txt_send_failed_post)], None)"
    by simp
  from send_message_catches_delivery_failures [of "transport_of bot_ok" "''42''" "''hello''"] k
  have g: "send_message (transport_of bot_ok) ''42'' ''hello''
             = ([BotSend ''42'' ''hello'',
                 Log DEBUG (txt_sent_pre @ ''hello'' @ txt_sent_post)], None)"
    by simp
  from d e f k g show ?thesis
    by simp
qed

section \<open>Startup\<close>

text \<open>
  Claim C7. If any of the three required configuration values is empty, \<open>main\<close>
  logs one record at critical level and halts (through \<open>exit()\<close>) before the loop: the
  status API and the messaging API are never called, whatever the worlds of the run.
\<close>

theorem missing_configuration_halts:
  assumes "PRACTICUM_TOKEN cfg = [] \<or> TELEGRAM_TOKEN cfg = [] \<or> TELEGRAM_CHAT_ID cfg = []"
  shows "snd (main cfg bot0 now ws) = Some (PyExc SystemExit PNone)
         \<and> (\<exists>t. fst (main cfg bot0 now ws) = [Log CRITICAL t])
         \<and> api_requests (fst (main cfg bot0 now ws)) = []
         \<and> sent_texts (fst (main cfg bot0 now ws)) = []"
proof -
  from assms have "[] \<in> snd ` set (env_vars cfg)"
    by (auto simp: env_vars_def)
  then obtain t where "check_tokens cfg = Inl (PyExc EnvironmentVariableDoesNotExist (PStr t))"
    using check_vars_empty unfolding check_tokens_def by blast
  then show ?thesis
    by (simp add: main_def)
qed

theorem missing_configuration_halts_witness:
  "TELEGRAM_CHAT_ID ex_config_no_chat = []
   \<and> snd (main ex_config_no_chat bot_ok 100 [world_approved]) = Some (PyExc SystemExit PNone)
   \<and> api_requests (fst (main ex_config_no_chat bot_ok 100 [world_approved])) = []
   \<and> sent_texts (fst (main ex_config_no_chat bot_ok 100 [world_approved])) = []"
proof -
  have h: "TELEGRAM_CHAT_ID ex_config_no_chat = []"
    by (simp add: ex_config_no_chat_def)
  then have "PRACTICUM_TOKEN ex_config_no_chat = [] \<or> TELEGRAM_TOKEN ex_config_no_chat = []
             \<or> TELEGRAM_CHAT_ID ex_config_no_chat = []"
    by simp
  from missing_configuration_halts [OF this, of bot_ok 100 "[world_approved]"] h
  show ?thesis by simp
qed

section \<open>The response validator\<close>

text \<open>
  Claim C5, as stated, says that validation returns the validated response unchanged.
  The function returns the value under \<open>homeworks\<close>, not the response: on a valid
  response with an empty list it returns the empty list.
\<close>

theorem check_response_returns_response_counterexample:
  "check_response ex_response_empty = Inr [] \<and> PList [] \<noteq> ex_response_empty"
  by (simp add: check_response_def ex_response_empty_def)

text \<open>
  Claim C5, amended. The validator accepts exactly the dictionaries that have the keys
  \<open>homeworks\<close> and \<open>current_date\<close> with a list under \<open>homeworks\<close>, and on these it
  returns that list as it is.
\<close>

theorem check_response_accepts:
  "check_response response = Inr hs \<longleftrightarrow>
     (\<exists>kvs cd. response = PDict kvs \<and> map_of kvs ''homeworks'' = Some (PList hs)
        \<and> map_of kvs ''current_date'' = Some cd)"
  by (auto simp: check_response_def split: pyval.splits option.splits)

theorem check_response_accepts_witness:
  "check_response ex_response_approved = Inr [ex_homework]
   \<and> py_getitem ex_response_approved ''homeworks'' = Inr (PList [ex_homework])"
proof -
  have "\<exists>kvs cd. ex_response_approved = PDict kvs
          \<and> map_of kvs ''homeworks'' = Some (PList [ex_homework])
          \<and> map_of kvs ''current_date'' = Some cd"
    by (simp add: ex_response_approved_def)
  then have "check_response ex_response_approved = Inr [ex_homework]"
    by (simp only: check_response_accepts)
  then show ?thesis
    by (simp add: ex_response_approved_def)
qed

section \<open>The poll loop: cursor\<close>

text \<open>
  Claim C4. For every valid response whose list of homeworks is empty, the cycle sends
  no notification and the cursor becomes the \<open>current_date\<close> of the response; the
  cycle ends normally and the two remembered texts stay as they were.
\<close>

theorem empty_list_silent_cursor_advances:
  assumes "get_api_answer (requests_get w) (timestamp s) = (ev, Inr response)"
    and "check_response response = Inr []"
  shows "sent_texts (cycle_events cfg w s) = []
         \<and> py_getitem response ''current_date'' = Inr (timestamp (cycle_state cfg w s))
         \<and> cycle_raised cfg w s = None
         \<and> previous_message (cycle_state cfg w s) = previous_message s
         \<and> previous_error_message (cycle_state cfg w s) = previous_error_message s"
proof -
  from check_response_InrD [OF assms(2)] obtain cd where
    cd: "py_getitem response ''current_date'' = Inr cd"
    by blast
  from poll_try_empty [OF assms cd] obtain evs where
    p: "poll_try cfg w s = (s\<lparr>timestamp := cd\<rparr>, evs, None)" and e: "sent_texts evs = []"
    by blast
  show ?thesis
    using p e cd
    by (simp add: cycle_events_def cycle_state_def cycle_raised_def poll_cycle_def
        sent_texts_append)
qed

theorem empty_list_silent_cursor_advances_witness:
  "get_api_answer (requests_get world_empty) (timestamp ex_state)
     = ([ApiRequest (PInt 100), Log INFO ''body''], Inr ex_response_empty)
   \<and> check_response ex_response_empty = Inr []
   \<and> sent_texts (cycle_events ex_config world_empty ex_state) = []
   \<and> timestamp (cycle_state ex_config world_empty ex_state) = PInt 50"
proof -
  have g: "get_api_answer (requests_get world_empty) (timestamp ex_state)
             = ([ApiRequest (PInt 100), Log INFO ''body''], Inr ex_response_empty)"
    by (simp add: world_empty_def ex_state_def fetch_serve)
  have v: "check_response ex_response_empty = Inr []"
    by (rule check_ex_responses)
  from empty_list_silent_cursor_advances [OF g v, of ex_config] g v
  show ?thesis
    by (simp add: cursor_ex_responses)
qed




text \<open>
  Claim C6, as stated, says that the cursor is never rewound. The loop assigns whatever
  \<open>current_date\<close> the server reports and compares it with nothing: a response with
  \<open>current_date\<close> 50 moves a cursor of 100 back to 50.
\<close>

theorem cursor_never_rewound_counterexample:
  "timestamp ex_state = PInt 100
   \<and> timestamp (cycle_state ex_config world_empty ex_state) = PInt 50
   \<and> (50 :: int) < 100"
  by (simp add: cycle_timestamp ex_fetched_cursor ex_state_def)

text \<open>
  Claim C6, amended. In every cycle the status API is asked once, with the cursor the
  cycle starts with. The cursor changes only after a successful fetch, and then it is
  replaced with the \<open>current_date\<close> of the response, whatever that value is; when the
  fetch raises or the response has no \<open>current_date\<close>, the cursor keeps its value.
\<close>

theorem cursor_follows_server:
  "api_requests (cycle_events cfg w s) = [timestamp s]
   \<and> timestamp (cycle_state cfg w s)
       = (case fetched_cursor w s of None \<Rightarrow> timestamp s | Some ts \<Rightarrow> ts)"
  by (simp add: cycle_requests cycle_timestamp)

theorem cursor_follows_server_witness:
  "api_requests (cycle_events ex_config world_approved ex_state) = [PInt 100]
   \<and> fetched_cursor world_approved ex_state = Some (PInt 50)
   \<and> timestamp (cycle_state ex_config world_approved ex_state) = PInt 50"
proof -
  have c: "fetched_cursor world_approved ex_state = Some (PInt 50)"
    by (simp add: fetched_cursor_def world_approved_def fetch_serve cursor_ex_responses)
  from cursor_follows_server [of ex_config world_approved ex_state] c
  show ?thesis
    by (simp add: ex_state_def)
qed

section \<open>The poll loop: notifications\<close>

lemma expected_error_sends_same:
  "\<forall>f \<in> set fs. f = None \<or> f = Some p \<Longrightarrow> expected_error_sends p fs = []"
  by (induction p fs rule: expected_error_sends.induct) auto

text \<open>
  Claim C2. Over every run, the texts sent by the failing cycles are those the rule of
  the specification gives: a failure is notified once when its text differs from the
  text of the failure before it and not at all when it repeats it, and a cycle without
  a failure in between does not clear the remembered text.
\<close>

theorem distinct_failures_notified_once:
  "error_sends cfg ws s = expected_error_sends (previous_error_message s) (failures cfg ws s)"
  by (rule error_sends_expected)

theorem distinct_failures_notified_once_witness:
  "failures ex_config [world_503, world_503, world_empty, world_503, world_refused] ex_state
     = [Some (txt_failure @ txt_endpoint_status @ ''503''),
        Some (txt_failure @ txt_endpoint_status @ ''503''),
        None,
        Some (txt_failure @ txt_endpoint_status @ ''503''),
        Some (txt_failure @ txt_request_failed_pre @ ''Connection refused''
              @ txt_request_failed_post)]
   \<and> error_sends ex_config [world_503, world_503, world_empty, world_503, world_refused] ex_state
     = [txt_failure @ txt_endpoint_status @ ''503'',
        txt_failure @ txt_request_failed_pre @ ''Connection refused'' @ txt_request_failed_post]"
proof -
  have f: "failures ex_config [world_503, world_503, world_empty, world_503, world_refused]
             ex_state
           = [Some (txt_failure @ txt_endpoint_status @ ''503''),
              Some (txt_failure @ txt_endpoint_status @ ''503''),
              None,
              Some (txt_failure @ txt_endpoint_status @ ''503''),
              Some (txt_failure @ txt_request_failed_pre @ ''Connection refused''
                    @ txt_request_failed_post)]"
    by (simp add: ex_cycle_failure)
  have p: "previous_error_message ex_state = []"
    by (simp add: ex_state_def)
  from distinct_failures_notified_once
         [of ex_config "[world_503, world_503, world_empty, world_503, world_refused]" ex_state]
  have e: "error_sends ex_config [world_503, world_503, world_empty, world_503, world_refused]
             ex_state
           = [txt_failure @ txt_endpoint_status @ ''503'',
              txt_failure @ txt_request_failed_pre @ ''Connection refused''
              @ txt_request_failed_post]"
    unfolding f p
    by (simp add: ex_texts_nonempty txt_endpoint_status_def txt_request_failed_pre_def
        del: error_sends.simps)
  from f e show ?thesis
    by (rule conjI)
qed

text \<open>
  Claim C3. Over every run of cycles whose first homework interprets to the same
  message, \<open>send_message\<close> is called at most once: once, in the first cycle, when the
  message differs from the remembered one, and never otherwise.
\<close>

theorem identical_message_sent_at_most_once:
  assumes "streak cfg m ws s"
  shows "sent_texts (run_events cfg ws s)
           = (if ws \<noteq> [] \<and> m \<noteq> previous_message s then [m] else [])
         \<and> length (sent_texts (run_events cfg ws s)) \<le> 1"
  using streak_sends [OF assms] by simp

theorem identical_message_sent_at_most_once_witness:
  "streak ex_config ex_message [world_approved, world_approved_bot_down, world_approved] ex_state
   \<and> sent_texts (run_events ex_config
        [world_approved, world_approved_bot_down, world_approved] ex_state) = [ex_message]"
proof -
  have s: "streak ex_config ex_message
             [world_approved, world_approved_bot_down, world_approved] ex_state"
    by (simp add: ex_cycle_message)
  have p: "previous_message ex_state = []"
    by (simp add: ex_state_def)
  from identical_message_sent_at_most_once [OF s] s
  show ?thesis
    by (simp add: p ex_texts_nonempty)
qed

text \<open>
  Claim C9. When the transport fails to deliver a text, the text is remembered all the
  same. A status message whose delivery failed is the remembered last message after the
  cycle, and no cycle of a following run with the same message sends it again. A failure
  text whose delivery failed is the remembered last error after the cycle, and no
  failing cycle of a following run sends it again as long as the failures of the run
  have this text.
\<close>

theorem failed_delivery_is_remembered:
  assumes "bot_send_message w (TELEGRAM_CHAT_ID cfg) text = Some err"
  shows "(cycle_message w s = Some text \<longrightarrow>
            previous_message (cycle_state cfg w s) = text
            \<and> (\<forall>ws. streak cfg text ws (cycle_state cfg w s) \<longrightarrow>
                  sent_texts (run_events cfg ws (cycle_state cfg w s)) = []))
         \<and> (cycle_failure cfg w s = Some text \<longrightarrow>
            previous_error_message (cycle_state cfg w s) = text
            \<and> (\<forall>ws. (\<forall>f \<in> set (failures cfg ws (cycle_state cfg w s)).
                        f = None \<or> f = Some text) \<longrightarrow>
                  error_sends cfg ws (cycle_state cfg w s) = []))"
proof (intro conjI impI allI)
  assume m: "cycle_message w s = Some text"
  show pm: "previous_message (cycle_state cfg w s) = text"
    using m by (rule cycle_message_sends(2))
  fix ws
  assume "streak cfg text ws (cycle_state cfg w s)"
  from streak_sends [OF this] pm
  show "sent_texts (run_events cfg ws (cycle_state cfg w s)) = []"
    by simp
next
  assume f: "cycle_failure cfg w s = Some text"
  show pe: "previous_error_message (cycle_state cfg w s) = text"
    using f cycle_prev_error [of cfg w s] by simp
  fix ws
  assume "\<forall>f \<in> set (failures cfg ws (cycle_state cfg w s)). f = None \<or> f = Some text"
  then show "error_sends cfg ws (cycle_state cfg w s) = []"
    using pe by (simp add: error_sends_expected expected_error_sends_same)
qed

theorem failed_delivery_is_remembered_witness:
  "bot_send_message world_approved_bot_down (TELEGRAM_CHAT_ID ex_config) ex_message
     = Some ''Timed out''
   \<and> cycle_message world_approved_bot_down ex_state = Some ex_message
   \<and> sent_texts (cycle_events ex_config world_approved_bot_down ex_state) = [ex_message]
   \<and> previous_message (cycle_state ex_config world_approved_bot_down ex_state) = ex_message
   \<and> sent_texts (run_events ex_config [world_approved, world_approved]
        (cycle_state ex_config world_approved_bot_down ex_state)) = []"
proof -
  have b: "bot_send_message world_approved_bot_down (TELEGRAM_CHAT_ID ex_config) ex_message
             = Some ''Timed out''"
    by (simp add: world_approved_bot_down_def bot_down_def)
  have m: "cycle_message world_approved_bot_down ex_state = Some ex_message"
    by (rule ex_cycle_message)
  have st: "streak ex_config ex_message [world_approved, world_approved]
              (cycle_state ex_config world_approved_bot_down ex_state)"
    by (simp add: ex_cycle_message)
  have sent: "sent_texts (cycle_events ex_config world_approved_bot_down ex_state) = [ex_message]"
    using cycle_message_sends(1) [OF m, of ex_config]
    by (simp add: ex_state_def ex_texts_nonempty)
  from failed_delivery_is_remembered [OF b, of ex_state] m st b sent
  show ?thesis
    by simp
qed

text \<open>
  Claim C10. In the loop the check of the validator for a missing \<open>current_date\<close> is
  never the one that fails: the \<open>try\<close> block never ends with the \<open>KeyError\<close> of that
  check. The cursor is read from the response before the validator is called, so when
  that read raises (as it does for a dictionary without the key, with
  \<open>KeyError('current_date')\<close>), the exception of the read is the one reported.
\<close>

theorem validator_current_date_check_unreachable:
  "cycle_exception cfg w s \<noteq> Some (PyExc KeyError (PStr txt_no_current_date))
   \<and> (\<forall>ev response e.
         get_api_answer (requests_get w) (timestamp s) = (ev, Inr response)
         \<and> py_getitem response ''current_date'' = Inl e
         \<longrightarrow> cycle_exception cfg w s = Some e
             \<and> cycle_failure cfg w s = Some (txt_failure @ str_exc e))
   \<and> (\<forall>kvs. map_of kvs ''current_date'' = None \<longrightarrow>
         py_getitem (PDict kvs) ''current_date'' = Inl (PyExc KeyError (PStr ''current_date'')))"
proof (intro conjI allI impI)
  show "cycle_exception cfg w s \<noteq> Some (PyExc KeyError (PStr txt_no_current_date))"
    using poll_try_not_validator [of cfg w s]
    by (cases "poll_try cfg w s") (auto simp: cycle_exception_def)
next
  fix ev response e
  assume "get_api_answer (requests_get w) (timestamp s) = (ev, Inr response)
          \<and> py_getitem response ''current_date'' = Inl e"
  then have p: "poll_try cfg w s
      = (s, Log INFO (''Timestamp for checking '' @ py_str (timestamp s)) # ev, Some e)"
    by (simp add: poll_try_def)
  show "cycle_exception cfg w s = Some e"
    using p by (simp add: cycle_exception_def)
  show "cycle_failure cfg w s = Some (txt_failure @ str_exc e)"
    using p by (simp add: cycle_failure_def)
next
  fix kvs :: "(string \<times> pyval) list"
  assume "map_of kvs ''current_date'' = None"
  then show "py_getitem (PDict kvs) ''current_date'' = Inl (PyExc KeyError (PStr ''current_date''))"
    by simp
qed

theorem validator_current_date_check_unreachable_witness:
  "get_api_answer (requests_get world_no_date) (timestamp ex_state)
     = ([ApiRequest (PInt 100), Log INFO ''body''], Inr ex_response_no_date)
   \<and> check_response ex_response_no_date = Inl (PyExc KeyError (PStr txt_no_current_date))
   \<and> py_getitem ex_response_no_date ''current_date''
       = Inl (PyExc KeyError (PStr ''current_date''))
   \<and> cycle_exception ex_config world_no_date ex_state
       = Some (PyExc KeyError (PStr ''current_date''))
   \<and> cycle_exception ex_config world_no_date ex_state
       \<noteq> Some (PyExc KeyError (PStr txt_no_current_date))"
proof -
  have g: "get_api_answer (requests_get world_no_date) (timestamp ex_state)
             = ([ApiRequest (PInt 100), Log INFO ''body''], Inr ex_response_no_date)"
    by (simp add: world_no_date_def ex_state_def fetch_serve)
  have c: "py_getitem ex_response_no_date ''current_date''
             = Inl (PyExc KeyError (PStr ''current_date''))"
    by (rule cursor_ex_responses)
  have v: "check_response ex_response_no_date = Inl (PyExc KeyError (PStr txt_no_current_date))"
    by (rule check_ex_responses)
  from validator_current_date_check_unreachable [of ex_config world_no_date ex_state]
  have "cycle_exception ex_config world_no_date ex_state
          \<noteq> Some (PyExc KeyError (PStr txt_no_current_date))
        \<and> cycle_exception ex_config world_no_date ex_state
          = Some (PyExc KeyError (PStr ''current_date''))"
    using g c by blast
  then show ?thesis
    using g c v by (simp add: no_current_date_neq)
qed

end
